theory Spec2Isabelle
  imports Main
begin

section \<open>Values\<close>

text \<open>
  The source file \<^verbatim>\<open>app/models.py\<close> is a set of SQLModel class declarations: seven
  string enumerations, eleven table classes and nine validation-only classes
  (\<^verbatim>\<open>table=False\<close>). A class is a list of annotated fields, each with the keyword
  arguments of its \<^verbatim>\<open>Field(...)\<close>. The declarations are embedded as data, one
  definition per class with the fields in source order, and the meaning of the
  declarations (what \<^verbatim>\<open>model_validate\<close> accepts, what the table constraints admit)
  is given by functions over that data.

  A Python \<^verbatim>\<open>str\<close> is a sequence of code points and \<^verbatim>\<open>len\<close> counts code points,
  so a string value is a list of code point numbers. Identifiers of the source
  (field, class and table names) stay Isabelle strings.
\<close>

type_synonym pystr = "nat list"

definition py :: "string \<Rightarrow> pystr" where
  "py s = map of_char s"

text \<open>A naive \<^verbatim>\<open>datetime\<close>: year, month, day, hour, minute, second, microsecond.\<close>

datatype datetime = Datetime nat nat nat nat nat nat nat

text \<open>
  A finite \<^verbatim>\<open>Decimal\<close> as \<^verbatim>\<open>as_tuple()\<close> shows it: sign (True for negative),
  digits, exponent. \<^verbatim>\<open>Decimal("9.99")\<close> is \<open>Decimal False [9, 9, 9] (- 2)\<close>.
\<close>

datatype decimal = Decimal bool "nat list" int

datatype pyval =
    PNone
  | PBool bool
  | PInt int
  | PStr pystr
  | PDecimal decimal
  | PDatetime datetime
  | PList "pyval list"
  | PDict "(pystr \<times> pyval) list"

section \<open>Enumerations\<close>

text \<open>
  \<^verbatim>\<open>class UserType(str, Enum)\<close>: each member has a name and a string value. A member
  of a \<^verbatim>\<open>str\<close>-mixin enumeration is itself a \<^verbatim>\<open>str\<close> equal to its value, and is
  represented by \<open>PStr\<close> of that value.
\<close>

record enum_decl =
  enum_name :: string
  members :: "(string \<times> pystr) list"

definition enum_values :: "enum_decl \<Rightarrow> pystr list" where
  "enum_values e = map snd (members e)"

definition UserType :: enum_decl where
  "UserType = \<lparr>enum_name = ''UserType'',
     members = [(''B2C'', py ''b2c''), (''B2B'', py ''b2b'')]\<rparr>"

definition AccountType :: enum_decl where
  "AccountType = \<lparr>enum_name = ''AccountType'',
     members = [(''MASTER'', py ''master''), (''MEMBER'', py ''member'')]\<rparr>"

definition CompanyType :: enum_decl where
  "CompanyType = \<lparr>enum_name = ''CompanyType'',
     members = [(''STARTUP'', py ''startup''), (''SME'', py ''sme''),
       (''CORPORATION'', py ''corporation''), (''NON_PROFIT'', py ''non_profit''),
       (''GOVERNMENT'', py ''government''), (''OTHER'', py ''other'')]\<rparr>"

definition CompanySize :: enum_decl where
  "CompanySize = \<lparr>enum_name = ''CompanySize'',
     members = [(''MICRO'', py ''micro''), (''SMALL'', py ''small''),
       (''MEDIUM'', py ''medium''), (''LARGE'', py ''large'')]\<rparr>"

definition PricingPlan :: enum_decl where
  "PricingPlan = \<lparr>enum_name = ''PricingPlan'',
     members = [(''WEEK_PASS'', py ''week_pass''), (''BESTPRICE'', py ''bestprice'')]\<rparr>"

definition QueryType :: enum_decl where
  "QueryType = \<lparr>enum_name = ''QueryType'',
     members = [(''LIGHT'', py ''light''), (''MAIN'', py ''main'')]\<rparr>"

definition Language :: enum_decl where
  "Language = \<lparr>enum_name = ''Language'',
     members = [(''BG'', py ''bg''), (''CS'', py ''cs''), (''DA'', py ''da''),
       (''DE'', py ''de''), (''EL'', py ''el''), (''EN'', py ''en''),
       (''ES'', py ''es''), (''ET'', py ''et''), (''FI'', py ''fi''),
       (''FR'', py ''fr''), (''GA'', py ''ga''), (''HR'', py ''hr''),
       (''HU'', py ''hu''), (''IT'', py ''it''), (''LT'', py ''lt''),
       (''LV'', py ''lv''), (''MT'', py ''mt''), (''NL'', py ''nl''),
       (''PL'', py ''pl''), (''PT'', py ''pt''), (''RO'', py ''ro''),
       (''SK'', py ''sk''), (''SL'', py ''sl''), (''SV'', py ''sv'')]\<rparr>"

definition all_enums :: "enum_decl list" where
  "all_enums =
     [UserType, AccountType, CompanyType, CompanySize, PricingPlan, QueryType, Language]"

section \<open>Field declarations\<close>

text \<open>The annotation of a field.\<close>

datatype ftype =
    T_str
  | T_int
  | T_bool
  | T_Decimal
  | T_datetime
  | T_Enum enum_decl
  | T_Optional ftype
  | T_List ftype
  | T_Dict_str_Any

text \<open>
  The keyword arguments of \<^verbatim>\<open>Field(...)\<close> that the file uses. \<open>Field\<close> is the call
  with no argument (also a bare annotation such as \<^verbatim>\<open>user_type: UserType\<close>); a field
  of the source is \<open>Field\<close> updated with the arguments it passes.
\<close>

datatype default_value = Undefined | Default pyval

datatype factory = Utcnow

datatype sa_type = JSON

record field_info =
  default :: default_value
  default_factory :: "factory option"
  primary_key :: bool
  foreign_key :: "string option"
  unique :: bool
  max_length :: "nat option"
  min_length :: "nat option"
  decimal_places :: "nat option"
  max_digits :: "nat option"
  sa_column :: "sa_type option"

definition Field :: field_info where
  "Field = \<lparr>default = Undefined, default_factory = None, primary_key = False,
     foreign_key = None, unique = False, max_length = None, min_length = None,
     decimal_places = None, max_digits = None, sa_column = None\<rparr>"

type_synonym field = "string \<times> ftype \<times> field_info"

text \<open>
  A \<^verbatim>\<open>Relationship(...)\<close> attribute: its annotation (one object, an optional object,
  a list) with the target class name, \<^verbatim>\<open>back_populates\<close>, and \<^verbatim>\<open>uselist\<close> of
  \<^verbatim>\<open>sa_relationship_kwargs\<close>.
\<close>

datatype rtype = R_One string | R_Optional string | R_List string

record relationship_info =
  back_populates :: "string option"
  uselist :: "bool option"

definition Relationship :: relationship_info where
  "Relationship = \<lparr>back_populates = None, uselist = None\<rparr>"

type_synonym relationship = "string \<times> rtype \<times> relationship_info"

record model =
  class_name :: string
  table :: bool
  tablename :: "string option"
  model_fields :: "field list"
  relationships :: "relationship list"

section \<open>The classes\<close>

abbreviation Opt_None :: field_info where
  "Opt_None \<equiv> Field\<lparr>default := Default PNone\<rparr>"

abbreviation Created :: field_info where
  "Created \<equiv> Field\<lparr>default_factory := Some Utcnow\<rparr>"

abbreviation Id_key :: field where
  "Id_key \<equiv> (''id'', T_Optional T_int, Field\<lparr>default := Default PNone, primary_key := True\<rparr>)"

subsection \<open>Core user management\<close>

definition Organization :: model where
  "Organization = \<lparr>class_name = ''Organization'', table = True,
     tablename = Some ''organizations'',
     model_fields =
      [Id_key,
       (''name'', T_str, Field\<lparr>max_length := Some 200\<rparr>),
       (''company_type'', T_Enum CompanyType, Field),
       (''company_size'', T_Enum CompanySize, Field),
       (''headquarters_location'', T_str, Field\<lparr>max_length := Some 100\<rparr>),
       (''subsidiary_locations'', T_List T_str,
          Field\<lparr>default := Default (PList []), sa_column := Some JSON\<rparr>),
       (''sso_enabled'', T_bool, Field\<lparr>default := Default (PBool False)\<rparr>),
       (''sso_config'', T_Dict_str_Any,
          Field\<lparr>default := Default (PDict []), sa_column := Some JSON\<rparr>),
       (''created_at'', T_datetime, Created),
       (''updated_at'', T_datetime, Created)],
     relationships =
      [(''users'', R_List ''User'', Relationship\<lparr>back_populates := Some ''organization''\<rparr>),
       (''api_keys'', R_List ''APIKey'',
          Relationship\<lparr>back_populates := Some ''organization''\<rparr>)]\<rparr>"

definition User :: model where
  "User = \<lparr>class_name = ''User'', table = True, tablename = Some ''users'',
     model_fields =
      [Id_key,
       (''email'', T_str, Field\<lparr>unique := True, max_length := Some 255\<rparr>),
       (''password_hash'', T_str, Field\<lparr>max_length := Some 255\<rparr>),
       (''user_type'', T_Enum UserType, Field),
       (''account_type'', T_Optional (T_Enum AccountType), Opt_None),
       (''organization_id'', T_Optional T_int,
          Field\<lparr>default := Default PNone, foreign_key := Some ''organizations.id''\<rparr>),
       (''is_active'', T_bool, Field\<lparr>default := Default (PBool True)\<rparr>),
       (''can_generate_api_keys'', T_bool, Field\<lparr>default := Default (PBool False)\<rparr>),
       (''created_at'', T_datetime, Created),
       (''updated_at'', T_datetime, Created)],
     relationships =
      [(''organization'', R_Optional ''Organization'',
          Relationship\<lparr>back_populates := Some ''users''\<rparr>),
       (''user_context'', R_Optional ''UserContext'',
          Relationship\<lparr>back_populates := Some ''user'', uselist := Some False\<rparr>),
       (''subscriptions'', R_List ''Subscription'',
          Relationship\<lparr>back_populates := Some ''user''\<rparr>),
       (''api_keys'', R_List ''APIKey'', Relationship\<lparr>back_populates := Some ''user''\<rparr>),
       (''chat_sessions'', R_List ''ChatSession'',
          Relationship\<lparr>back_populates := Some ''user''\<rparr>),
       (''queries'', R_List ''Query'', Relationship\<lparr>back_populates := Some ''user''\<rparr>),
       (''documents'', R_List ''Document'', Relationship\<lparr>back_populates := Some ''user''\<rparr>),
       (''billing_records'', R_List ''BillingRecord'',
          Relationship\<lparr>back_populates := Some ''user''\<rparr>)]\<rparr>"

definition UserContext :: model where
  "UserContext = \<lparr>class_name = ''UserContext'', table = True,
     tablename = Some ''user_contexts'',
     model_fields =
      [Id_key,
       (''user_id'', T_int, Field\<lparr>foreign_key := Some ''users.id'', unique := True\<rparr>),
       (''user_type_context'', T_str, Field\<lparr>max_length := Some 50\<rparr>),
       (''home_location'', T_str, Field\<lparr>max_length := Some 100\<rparr>),
       (''preferred_language'', T_Enum Language, Field),
       (''profession'', T_str, Field\<lparr>max_length := Some 100\<rparr>),
       (''personal_notes'', T_str,
          Field\<lparr>default := Default (PStr []), max_length := Some 2000\<rparr>),
       (''context_data'', T_Dict_str_Any,
          Field\<lparr>default := Default (PDict []), sa_column := Some JSON\<rparr>),
       (''created_at'', T_datetime, Created),
       (''updated_at'', T_datetime, Created)],
     relationships =
      [(''user'', R_One ''User'', Relationship\<lparr>back_populates := Some ''user_context''\<rparr>)]\<rparr>"

subsection \<open>API key management\<close>

definition APIKey :: model where
  "APIKey = \<lparr>class_name = ''APIKey'', table = True, tablename = Some ''api_keys'',
     model_fields =
      [Id_key,
       (''key_hash'', T_str, Field\<lparr>unique := True, max_length := Some 255\<rparr>),
       (''name'', T_str, Field\<lparr>max_length := Some 100\<rparr>),
       (''user_id'', T_int, Field\<lparr>foreign_key := Some ''users.id''\<rparr>),
       (''organization_id'', T_Optional T_int,
          Field\<lparr>default := Default PNone, foreign_key := Some ''organizations.id''\<rparr>),
       (''is_active'', T_bool, Field\<lparr>default := Default (PBool True)\<rparr>),
       (''last_used_at'', T_Optional T_datetime, Opt_None),
       (''expires_at'', T_Optional T_datetime, Opt_None),
       (''created_at'', T_datetime, Created)],
     relationships =
      [(''user'', R_One ''User'', Relationship\<lparr>back_populates := Some ''api_keys''\<rparr>),
       (''organization'', R_Optional ''Organization'',
          Relationship\<lparr>back_populates := Some ''api_keys''\<rparr>)]\<rparr>"

subsection \<open>Pricing and subscriptions\<close>

definition Subscription :: model where
  "Subscription = \<lparr>class_name = ''Subscription'', table = True,
     tablename = Some ''subscriptions'',
     model_fields =
      [Id_key,
       (''user_id'', T_int, Field\<lparr>foreign_key := Some ''users.id''\<rparr>),
       (''pricing_plan'', T_Enum PricingPlan, Field),
       (''is_active'', T_bool, Field\<lparr>default := Default (PBool True)\<rparr>),
       (''token_allowance'', T_Optional T_int, Opt_None),
       (''tokens_used'', T_int, Field\<lparr>default := Default (PInt 0)\<rparr>),
       (''week_pass_expires_at'', T_Optional T_datetime, Opt_None),
       (''week_pass_price'', T_Optional T_Decimal,
          Field\<lparr>default := Default PNone, decimal_places := Some 2, max_digits := Some 10\<rparr>),
       (''current_price_per_1k_tokens'', T_Optional T_Decimal,
          Field\<lparr>default := Default PNone, decimal_places := Some 4, max_digits := Some 10\<rparr>),
       (''total_tokens_consumed'', T_int, Field\<lparr>default := Default (PInt 0)\<rparr>),
       (''created_at'', T_datetime, Created),
       (''updated_at'', T_datetime, Created)],
     relationships =
      [(''user'', R_One ''User'', Relationship\<lparr>back_populates := Some ''subscriptions''\<rparr>),
       (''token_usages'', R_List ''TokenUsage'',
          Relationship\<lparr>back_populates := Some ''subscription''\<rparr>),
       (''billing_records'', R_List ''BillingRecord'',
          Relationship\<lparr>back_populates := Some ''subscription''\<rparr>)]\<rparr>"

definition TokenUsage :: model where
  "TokenUsage = \<lparr>class_name = ''TokenUsage'', table = True,
     tablename = Some ''token_usages'',
     model_fields =
      [Id_key,
       (''subscription_id'', T_int, Field\<lparr>foreign_key := Some ''subscriptions.id''\<rparr>),
       (''query_id'', T_Optional T_int,
          Field\<lparr>default := Default PNone, foreign_key := Some ''queries.id''\<rparr>),
       (''tokens_consumed'', T_int, Field),
       (''cost'', T_Decimal, Field\<lparr>decimal_places := Some 4, max_digits := Some 10\<rparr>),
       (''timestamp'', T_datetime, Created)],
     relationships =
      [(''subscription'', R_One ''Subscription'',
          Relationship\<lparr>back_populates := Some ''token_usages''\<rparr>),
       (''query'', R_Optional ''Query'',
          Relationship\<lparr>back_populates := Some ''token_usage''\<rparr>)]\<rparr>"

subsection \<open>Document management\<close>

definition Document :: model where
  "Document = \<lparr>class_name = ''Document'', table = True, tablename = Some ''documents'',
     model_fields =
      [Id_key,
       (''user_id'', T_int, Field\<lparr>foreign_key := Some ''users.id''\<rparr>),
       (''filename'', T_str, Field\<lparr>max_length := Some 255\<rparr>),
       (''original_filename'', T_str, Field\<lparr>max_length := Some 255\<rparr>),
       (''file_size'', T_int, Field),
       (''mime_type'', T_str, Field\<lparr>max_length := Some 100\<rparr>),
       (''file_path'', T_str, Field\<lparr>max_length := Some 500\<rparr>),
       (''language'', T_Optional (T_Enum Language), Opt_None),
       (''processed'', T_bool, Field\<lparr>default := Default (PBool False)\<rparr>),
       (''processing_error'', T_Optional T_str,
          Field\<lparr>default := Default PNone, max_length := Some 1000\<rparr>),
       (''uploaded_at'', T_datetime, Created),
       (''processed_at'', T_Optional T_datetime, Opt_None)],
     relationships =
      [(''user'', R_One ''User'', Relationship\<lparr>back_populates := Some ''documents''\<rparr>),
       (''chat_session_links'', R_List ''ChatSessionDocument'',
          Relationship\<lparr>back_populates := Some ''document''\<rparr>)]\<rparr>"

subsection \<open>Chat and queries\<close>

definition ChatSession :: model where
  "ChatSession = \<lparr>class_name = ''ChatSession'', table = True,
     tablename = Some ''chat_sessions'',
     model_fields =
      [Id_key,
       (''user_id'', T_int, Field\<lparr>foreign_key := Some ''users.id''\<rparr>),
       (''title'', T_str, Field\<lparr>max_length := Some 200\<rparr>),
       (''query_type'', T_Enum QueryType, Field),
       (''language'', T_Enum Language, Field),
       (''is_active'', T_bool, Field\<lparr>default := Default (PBool True)\<rparr>),
       (''session_context'', T_Dict_str_Any,
          Field\<lparr>default := Default (PDict []), sa_column := Some JSON\<rparr>),
       (''created_at'', T_datetime, Created),
       (''updated_at'', T_datetime, Created)],
     relationships =
      [(''user'', R_One ''User'', Relationship\<lparr>back_populates := Some ''chat_sessions''\<rparr>),
       (''queries'', R_List ''Query'',
          Relationship\<lparr>back_populates := Some ''chat_session''\<rparr>),
       (''document_links'', R_List ''ChatSessionDocument'',
          Relationship\<lparr>back_populates := Some ''chat_session''\<rparr>)]\<rparr>"

definition ChatSessionDocument :: model where
  "ChatSessionDocument = \<lparr>class_name = ''ChatSessionDocument'', table = True,
     tablename = Some ''chat_session_documents'',
     model_fields =
      [(''chat_session_id'', T_int,
          Field\<lparr>primary_key := True, foreign_key := Some ''chat_sessions.id''\<rparr>),
       (''document_id'', T_int,
          Field\<lparr>primary_key := True, foreign_key := Some ''documents.id''\<rparr>),
       (''added_at'', T_datetime, Created)],
     relationships =
      [(''chat_session'', R_One ''ChatSession'', Relationship),
       (''document'', R_One ''Document'', Relationship)]\<rparr>"

definition Query :: model where
  "Query = \<lparr>class_name = ''Query'', table = True, tablename = Some ''queries'',
     model_fields =
      [Id_key,
       (''user_id'', T_int, Field\<lparr>foreign_key := Some ''users.id''\<rparr>),
       (''chat_session_id'', T_Optional T_int,
          Field\<lparr>default := Default PNone, foreign_key := Some ''chat_sessions.id''\<rparr>),
       (''query_type'', T_Enum QueryType, Field),
       (''query_text'', T_str, Field\<lparr>max_length := Some 5000\<rparr>),
       (''response_text'', T_str, Field\<lparr>default := Default (PStr [])\<rparr>),
       (''language'', T_Enum Language, Field),
       (''tokens_consumed'', T_int, Field\<lparr>default := Default (PInt 0)\<rparr>),
       (''processing_time_ms'', T_Optional T_int, Opt_None),
       (''sources'', T_List T_Dict_str_Any,
          Field\<lparr>default := Default (PList []), sa_column := Some JSON\<rparr>),
       (''chunks'', T_List T_Dict_str_Any,
          Field\<lparr>default := Default (PList []), sa_column := Some JSON\<rparr>),
       (''context_used'', T_Dict_str_Any,
          Field\<lparr>default := Default (PDict []), sa_column := Some JSON\<rparr>),
       (''created_at'', T_datetime, Created)],
     relationships =
      [(''user'', R_One ''User'', Relationship\<lparr>back_populates := Some ''queries''\<rparr>),
       (''chat_session'', R_Optional ''ChatSession'',
          Relationship\<lparr>back_populates := Some ''queries''\<rparr>),
       (''token_usage'', R_Optional ''TokenUsage'',
          Relationship\<lparr>back_populates := Some ''query'', uselist := Some False\<rparr>)]\<rparr>"

subsection \<open>Billing\<close>

definition BillingRecord :: model where
  "BillingRecord = \<lparr>class_name = ''BillingRecord'', table = True,
     tablename = Some ''billing_records'',
     model_fields =
      [Id_key,
       (''user_id'', T_int, Field\<lparr>foreign_key := Some ''users.id''\<rparr>),
       (''subscription_id'', T_int, Field\<lparr>foreign_key := Some ''subscriptions.id''\<rparr>),
       (''billing_period_start'', T_datetime, Field),
       (''billing_period_end'', T_datetime, Field),
       (''total_tokens'', T_int, Field),
       (''total_cost'', T_Decimal, Field\<lparr>decimal_places := Some 2, max_digits := Some 10\<rparr>),
       (''currency'', T_str,
          Field\<lparr>default := Default (PStr (py ''EUR'')), max_length := Some 3\<rparr>),
       (''created_at'', T_datetime, Created)],
     relationships =
      [(''user'', R_One ''User'', Relationship),
       (''subscription'', R_One ''Subscription'', Relationship)]\<rparr>"

subsection \<open>Non-persistent schemas for validation and API\<close>

definition UserCreate :: model where
  "UserCreate = \<lparr>class_name = ''UserCreate'', table = False, tablename = None,
     model_fields =
      [(''email'', T_str, Field\<lparr>max_length := Some 255\<rparr>),
       (''password'', T_str, Field\<lparr>min_length := Some 8\<rparr>),
       (''user_type'', T_Enum UserType, Field),
       (''organization_name'', T_Optional T_str,
          Field\<lparr>default := Default PNone, max_length := Some 200\<rparr>)],
     relationships = []\<rparr>"

definition UserContextCreate :: model where
  "UserContextCreate = \<lparr>class_name = ''UserContextCreate'', table = False,
     tablename = None,
     model_fields =
      [(''user_type_context'', T_str, Field\<lparr>max_length := Some 50\<rparr>),
       (''home_location'', T_str, Field\<lparr>max_length := Some 100\<rparr>),
       (''preferred_language'', T_Enum Language, Field),
       (''profession'', T_str, Field\<lparr>max_length := Some 100\<rparr>),
       (''personal_notes'', T_str,
          Field\<lparr>default := Default (PStr []), max_length := Some 2000\<rparr>),
       (''context_data'', T_Dict_str_Any, Field\<lparr>default := Default (PDict [])\<rparr>)],
     relationships = []\<rparr>"

definition UserContextUpdate :: model where
  "UserContextUpdate = \<lparr>class_name = ''UserContextUpdate'', table = False,
     tablename = None,
     model_fields =
      [(''user_type_context'', T_Optional T_str,
          Field\<lparr>default := Default PNone, max_length := Some 50\<rparr>),
       (''home_location'', T_Optional T_str,
          Field\<lparr>default := Default PNone, max_length := Some 100\<rparr>),
       (''preferred_language'', T_Optional (T_Enum Language), Opt_None),
       (''profession'', T_Optional T_str,
          Field\<lparr>default := Default PNone, max_length := Some 100\<rparr>),
       (''personal_notes'', T_Optional T_str,
          Field\<lparr>default := Default PNone, max_length := Some 2000\<rparr>),
       (''context_data'', T_Optional T_Dict_str_Any, Opt_None)],
     relationships = []\<rparr>"

definition OrganizationCreate :: model where
  "OrganizationCreate = \<lparr>class_name = ''OrganizationCreate'', table = False,
     tablename = None,
     model_fields =
      [(''name'', T_str, Field\<lparr>max_length := Some 200\<rparr>),
       (''company_type'', T_Enum CompanyType, Field),
       (''company_size'', T_Enum CompanySize, Field),
       (''headquarters_location'', T_str, Field\<lparr>max_length := Some 100\<rparr>),
       (''subsidiary_locations'', T_List T_str, Field\<lparr>default := Default (PList [])\<rparr>)],
     relationships = []\<rparr>"

definition QueryCreate :: model where
  "QueryCreate = \<lparr>class_name = ''QueryCreate'', table = False, tablename = None,
     model_fields =
      [(''query_text'', T_str, Field\<lparr>max_length := Some 5000\<rparr>),
       (''query_type'', T_Enum QueryType, Field),
       (''language'', T_Enum Language, Field),
       (''chat_session_id'', T_Optional T_int, Opt_None)],
     relationships = []\<rparr>"

definition SubscriptionCreate :: model where
  "SubscriptionCreate = \<lparr>class_name = ''SubscriptionCreate'', table = False,
     tablename = None,
     model_fields =
      [(''pricing_plan'', T_Enum PricingPlan, Field),
       (''token_allowance'', T_Optional T_int, Opt_None),
       (''week_pass_price'', T_Optional T_Decimal, Opt_None)],
     relationships = []\<rparr>"

definition APIKeyCreate :: model where
  "APIKeyCreate = \<lparr>class_name = ''APIKeyCreate'', table = False, tablename = None,
     model_fields =
      [(''name'', T_str, Field\<lparr>max_length := Some 100\<rparr>),
       (''expires_at'', T_Optional T_datetime, Opt_None)],
     relationships = []\<rparr>"

definition DocumentUpload :: model where
  "DocumentUpload = \<lparr>class_name = ''DocumentUpload'', table = False, tablename = None,
     model_fields =
      [(''filename'', T_str, Field\<lparr>max_length := Some 255\<rparr>),
       (''file_size'', T_int, Field),
       (''mime_type'', T_str, Field\<lparr>max_length := Some 100\<rparr>),
       (''language'', T_Optional (T_Enum Language), Opt_None)],
     relationships = []\<rparr>"

definition ChatSessionCreate :: model where
  "ChatSessionCreate = \<lparr>class_name = ''ChatSessionCreate'', table = False,
     tablename = None,
     model_fields =
      [(''title'', T_str, Field\<lparr>max_length := Some 200\<rparr>),
       (''query_type'', T_Enum QueryType, Field),
       (''language'', T_Enum Language, Field),
       (''document_ids'', T_List T_int, Field\<lparr>default := Default (PList [])\<rparr>)],
     relationships = []\<rparr>"

definition all_models :: "model list" where
  "all_models =
     [Organization, User, UserContext, APIKey, Subscription, TokenUsage, Document,
      ChatSession, ChatSessionDocument, Query, BillingRecord,
      UserCreate, UserContextCreate, UserContextUpdate, OrganizationCreate, QueryCreate,
      SubscriptionCreate, APIKeyCreate, DocumentUpload, ChatSessionCreate]"

section \<open>Validation\<close>

text \<open>
  \<^verbatim>\<open>Model.model_validate(payload)\<close>: every declared field is looked up in the
  payload (a dictionary from field names to values; keys that name no field are
  ignored). A supplied value is checked against the annotation and the constraints
  of \<^verbatim>\<open>Field\<close>; an absent field takes its default (the default factory is called,
  the default is not validated) and is an error when it has none. The errors of all
  fields are collected, and the instance is built only when there is none.

  Values arrive as Python objects of the kinds of \<open>pyval\<close>. The conversions that the
  framework applies between kinds in its lax mode (the text \<^verbatim>\<open>"12"\<close> for an
  \<^verbatim>\<open>int\<close> field, a timestamp for a \<^verbatim>\<open>datetime\<close> field) are not declared in this file
  and are left out: a value of another kind than the annotation is a type error.
  No conversion produces a \<^verbatim>\<open>str\<close> from another kind, so the checks of \<^verbatim>\<open>str\<close>
  and enumeration fields are complete for these values.

  A \<^verbatim>\<open>str\<close> field with a length constraint is encoded before its length is taken:
  a string holding a surrogate code point (U+D800 to U+DFFF) cannot be encoded and
  fails with \<^verbatim>\<open>string_unicode\<close>, whatever its length. A \<^verbatim>\<open>str\<close> field without length
  constraint takes the string as it is.
\<close>

datatype error_type =
    Missing
  | String_type
  | String_unicode
  | String_too_short
  | String_too_long
  | Enum_error
  | Int_type
  | Bool_type
  | Decimal_type
  | Decimal_max_digits
  | Decimal_max_places
  | Decimal_whole_digits
  | Datetime_type
  | List_type
  | Dict_type

text \<open>An error names the field, the index path of the item inside it, and the kind.\<close>

type_synonym error = "string \<times> nat list \<times> error_type"

type_synonym payload = "string \<Rightarrow> pyval option"

type_synonym entity = "(string \<times> pyval) list"

definition surrogate :: "nat \<Rightarrow> bool" where
  "surrogate cp = (55296 \<le> cp \<and> cp \<le> 57343)"

definition str_error :: "field_info \<Rightarrow> pystr \<Rightarrow> error_type option" where
  "str_error c s =
     (if min_length c = None \<and> max_length c = None then None
      else if list_ex surrogate s then Some String_unicode
      else if (case min_length c of Some k \<Rightarrow> length s < k | None \<Rightarrow> False)
        then Some String_too_short
      else if (case max_length c of Some k \<Rightarrow> k < length s | None \<Rightarrow> False)
        then Some String_too_long
      else None)"

text \<open>
  \<^verbatim>\<open>max_digits\<close> and \<^verbatim>\<open>decimal_places\<close> are checked on the normalised value,
  \<^verbatim>\<open>Decimal.normalize()\<close> in the default context: the coefficient is rounded to the
  precision of 28 digits (half to even), trailing zeros of the coefficient move
  into the exponent, and zero becomes \<^verbatim>\<open>Decimal("0")\<close>. So \<^verbatim>\<open>Decimal("9.990")\<close> counts as
  9.99 and \<^verbatim>\<open>Decimal("0E+20")\<close> as 0. Exponents stay within the limits of the context
  (999999 in absolute value), where normalising neither overflows nor clamps.
\<close>

definition coefficient :: "nat list \<Rightarrow> nat" where
  "coefficient ds = foldl (\<lambda>a d. 10 * a + d) 0 ds"

fun ndigits :: "nat \<Rightarrow> nat" where
  "ndigits n = (if n < 10 then 1 else Suc (ndigits (n div 10)))"

fun strip_zeros :: "nat \<Rightarrow> int \<Rightarrow> nat \<times> int" where
  "strip_zeros co e =
     (if co \<noteq> 0 \<and> co mod 10 = 0 then strip_zeros (co div 10) (e + 1) else (co, e))"

definition round_prec :: "nat \<Rightarrow> int \<Rightarrow> nat \<times> int" where
  "round_prec co e =
     (let n = ndigits co
      in if n \<le> 28 then (co, e)
         else (let d = n - 28; q = co div 10 ^ d; r = co mod 10 ^ d;
                   q' = (if 10 ^ d < 2 * r \<or> (2 * r = 10 ^ d \<and> odd q) then q + 1 else q)
               in if q' = 10 ^ 28 then (10 ^ 27, e + int d + 1) else (q', e + int d)))"

fun normalize :: "decimal \<Rightarrow> nat \<times> int" where
  "normalize (Decimal sg ds e) =
     (if coefficient ds = 0 then (0, 0)
      else (case round_prec (coefficient ds) e of (co, e') \<Rightarrow> strip_zeros co e'))"

text \<open>
  The number of digits and of decimals is read from the digits and the exponent of
  the normalised value; the digits before the point may not exceed
  \<^verbatim>\<open>max_digits - decimal_places\<close>.
\<close>

definition decimal_error :: "field_info \<Rightarrow> decimal \<Rightarrow> error_type option" where
  "decimal_error c dec =
     (let (co, e) = normalize dec;
          n = ndigits co;
          digits = (if 0 \<le> e then n + nat e else if n < nat (- e) then nat (- e) else n);
          decimals = (if 0 \<le> e then 0 else nat (- e))
      in if (case max_digits c of Some k \<Rightarrow> k < digits | None \<Rightarrow> False)
           then Some Decimal_max_digits
         else (case decimal_places c of
                 None \<Rightarrow> None
               | Some p \<Rightarrow>
                   if p < decimals then Some Decimal_max_places
                   else (case max_digits c of
                           None \<Rightarrow> None
                         | Some k \<Rightarrow>
                             if k - p < digits - decimals then Some Decimal_whole_digits
                             else None)))"

fun item_errors :: "nat \<Rightarrow> ((nat list \<times> error_type) list + pyval) list \<Rightarrow>
    (nat list \<times> error_type) list" where
  "item_errors i [] = []"
| "item_errors i (Inl es # rs) = map (\<lambda>(p, e). (i # p, e)) es @ item_errors (Suc i) rs"
| "item_errors i (Inr v # rs) = item_errors (Suc i) rs"

fun check :: "ftype \<Rightarrow> field_info \<Rightarrow> pyval \<Rightarrow> (nat list \<times> error_type) list + pyval" where
  "check (T_Optional T) c v = (if v = PNone then Inr PNone else check T c v)"
| "check T_str c v =
     (case v of
        PStr s \<Rightarrow> (case str_error c s of Some e \<Rightarrow> Inl [([], e)] | None \<Rightarrow> Inr (PStr s))
      | _ \<Rightarrow> Inl [([], String_type)])"
| "check (T_Enum en) c v =
     (case v of
        PStr s \<Rightarrow> if s \<in> set (enum_values en) then Inr (PStr s) else Inl [([], Enum_error)]
      | _ \<Rightarrow> Inl [([], Enum_error)])"
| "check T_int c v = (case v of PInt i \<Rightarrow> Inr (PInt i) | _ \<Rightarrow> Inl [([], Int_type)])"
| "check T_bool c v = (case v of PBool b \<Rightarrow> Inr (PBool b) | _ \<Rightarrow> Inl [([], Bool_type)])"
| "check T_Decimal c v =
     (case v of
        PDecimal d \<Rightarrow>
          (case decimal_error c d of Some e \<Rightarrow> Inl [([], e)] | None \<Rightarrow> Inr (PDecimal d))
      | _ \<Rightarrow> Inl [([], Decimal_type)])"
| "check T_datetime c v =
     (case v of PDatetime d \<Rightarrow> Inr (PDatetime d) | _ \<Rightarrow> Inl [([], Datetime_type)])"
| "check (T_List T) c v =
     (case v of
        PList vs \<Rightarrow>
          (let rs = map (check T Field) vs; es = item_errors 0 rs
           in if es = [] then Inr (PList (map projr rs)) else Inl es)
      | _ \<Rightarrow> Inl [([], List_type)])"
| "check T_Dict_str_Any c v =
     (case v of PDict kvs \<Rightarrow> Inr (PDict kvs) | _ \<Rightarrow> Inl [([], Dict_type)])"

text \<open>
  \<^verbatim>\<open>default_factory=datetime.utcnow\<close> reads the clock; \<open>utcnow n\<close> is the reading at
  the call made for field \<open>n\<close>.
\<close>

definition get_default :: "(string \<Rightarrow> datetime) \<Rightarrow> string \<Rightarrow> field_info \<Rightarrow> pyval option" where
  "get_default utcnow n c =
     (case default_factory c of
        Some Utcnow \<Rightarrow> Some (PDatetime (utcnow n))
      | None \<Rightarrow> (case default c of Undefined \<Rightarrow> None | Default v \<Rightarrow> Some v))"

fun validate_field :: "(string \<Rightarrow> datetime) \<Rightarrow> payload \<Rightarrow> field \<Rightarrow> error list + (string \<times> pyval)" where
  "validate_field utcnow inp (n, T, c) =
     (case inp n of
        None \<Rightarrow>
          (case get_default utcnow n c of
             None \<Rightarrow> Inl [(n, [], Missing)]
           | Some d \<Rightarrow> Inr (n, d))
      | Some v \<Rightarrow>
          (case check T c v of
             Inl es \<Rightarrow> Inl (map (\<lambda>(p, e). (n, p, e)) es)
           | Inr v' \<Rightarrow> Inr (n, v')))"

fun field_errors :: "(error list + (string \<times> pyval)) list \<Rightarrow> error list" where
  "field_errors [] = []"
| "field_errors (Inl es # rs) = es @ field_errors rs"
| "field_errors (Inr v # rs) = field_errors rs"

definition validate :: "model \<Rightarrow> (string \<Rightarrow> datetime) \<Rightarrow> payload \<Rightarrow> error list + entity" where
  "validate m utcnow inp =
     (let rs = map (validate_field utcnow inp) (model_fields m); es = field_errors rs
      in if es = [] then Inr (map projr rs) else Inl es)"

definition accepts :: "model \<Rightarrow> (string \<Rightarrow> datetime) \<Rightarrow> payload \<Rightarrow> bool" where
  "accepts m utcnow inp = (case validate m utcnow inp of Inl es \<Rightarrow> False | Inr r \<Rightarrow> True)"

definition rejects :: "model \<Rightarrow> (string \<Rightarrow> datetime) \<Rightarrow> payload \<Rightarrow> bool" where
  "rejects m utcnow inp = (case validate m utcnow inp of Inl es \<Rightarrow> True | Inr r \<Rightarrow> False)"

text \<open>
  Calling the class, \<^verbatim>\<open>Model(**payload)\<close>. A class with \<^verbatim>\<open>table=False\<close> validates
  the payload as above. A class with \<^verbatim>\<open>table=True\<close> is constructed without any
  validation: a supplied value is stored as it is given, an absent field takes its
  default, and an absent field that has none is left unset. The attributes are
  listed in field order.
\<close>

fun construct_field :: "(string \<Rightarrow> datetime) \<Rightarrow> payload \<Rightarrow> field \<Rightarrow> entity" where
  "construct_field utcnow inp (n, T, c) =
     (case inp n of
        Some v \<Rightarrow> [(n, v)]
      | None \<Rightarrow> (case get_default utcnow n c of Some d \<Rightarrow> [(n, d)] | None \<Rightarrow> []))"

definition construct :: "model \<Rightarrow> (string \<Rightarrow> datetime) \<Rightarrow> payload \<Rightarrow> entity" where
  "construct m utcnow inp = concat (map (construct_field utcnow inp) (model_fields m))"

definition model_init :: "model \<Rightarrow> (string \<Rightarrow> datetime) \<Rightarrow> payload \<Rightarrow> error list + entity" where
  "model_init m utcnow inp =
     (if table m then Inr (construct m utcnow inp) else validate m utcnow inp)"

section \<open>Table constraints\<close>

text \<open>
  A class with \<^verbatim>\<open>table=True\<close> declares a table: a column per field, the primary key
  made of the fields with \<^verbatim>\<open>primary_key=True\<close>, a UNIQUE constraint for each field
  with \<^verbatim>\<open>unique=True\<close>, and NOT NULL for each column that is not nullable. A column
  is nullable when its annotation is \<^verbatim>\<open>Optional\<close> and it is not part of the primary
  key; a column given by \<^verbatim>\<open>sa_column=Column(JSON)\<close> has the column's own default,
  nullable.

  The table is the list of its rows. The database admits a row only when the
  constraints hold against the rows already stored; a missing attribute is NULL,
  and NULLs do not collide in a UNIQUE column. Foreign keys, whose enforcement
  depends on the engine, are not part of the check.
\<close>

fun nullable :: "field \<Rightarrow> bool" where
  "nullable (n, T, c) =
     (if sa_column c \<noteq> None then True
      else if primary_key c then False
      else (case T of T_Optional T' \<Rightarrow> True | _ \<Rightarrow> False))"

definition primary_key_columns :: "model \<Rightarrow> string list" where
  "primary_key_columns m = map fst (filter (\<lambda>(n, T, c). primary_key c) (model_fields m))"

definition unique_columns :: "model \<Rightarrow> string list" where
  "unique_columns m = map fst (filter (\<lambda>(n, T, c). unique c) (model_fields m))"

definition not_null_columns :: "model \<Rightarrow> string list" where
  "not_null_columns m = map fst (filter (\<lambda>f. \<not> nullable f) (model_fields m))"

definition column :: "string \<Rightarrow> entity \<Rightarrow> pyval" where
  "column n r = (case map_of r n of None \<Rightarrow> PNone | Some v \<Rightarrow> v)"

definition key :: "string list \<Rightarrow> entity \<Rightarrow> pyval list" where
  "key cols r = map (\<lambda>n. column n r) cols"

text \<open>
  The database generates the key only for a primary key that is one integer column
  without foreign key (the \<^verbatim>\<open>id\<close> fields): left at \<^verbatim>\<open>None\<close> or unset, it receives
  the generated value \<open>k\<close> at the insert. A composite key is never generated.
\<close>

definition autoincrement_column :: "model \<Rightarrow> string option" where
  "autoincrement_column m =
     (case filter (\<lambda>(n, T, c). primary_key c) (model_fields m) of
        [(n, T, c)] \<Rightarrow>
          if (T = T_int \<or> T = T_Optional T_int) \<and> foreign_key c = None then Some n else None
      | _ \<Rightarrow> None)"

definition assign_key :: "model \<Rightarrow> int \<Rightarrow> entity \<Rightarrow> entity" where
  "assign_key m k r =
     (case autoincrement_column m of
        None \<Rightarrow> r
      | Some n \<Rightarrow>
          (case map_of r n of
             None \<Rightarrow> r @ [(n, PInt k)]
           | Some v \<Rightarrow> map (\<lambda>(n', v'). if n' = n \<and> v' = PNone then (n', PInt k) else (n', v')) r))"

definition admissible :: "model \<Rightarrow> entity list \<Rightarrow> entity \<Rightarrow> bool" where
  "admissible m rows r =
     ((\<forall>n \<in> set (not_null_columns m). column n r \<noteq> PNone) \<and>
      key (primary_key_columns m) r \<notin> set (map (key (primary_key_columns m)) rows) \<and>
      (\<forall>n \<in> set (unique_columns m).
         column n r = PNone \<or> column n r \<notin> set (map (column n) rows)))"

datatype db_error = IntegrityError | NoSuchRow

definition insert_row :: "model \<Rightarrow> int \<Rightarrow> entity list \<Rightarrow> entity \<Rightarrow> db_error + entity list" where
  "insert_row m k rows r =
     (let r' = assign_key m k r
      in if admissible m rows r' then Inr (rows @ [r']) else Inl IntegrityError)"

definition update_row :: "model \<Rightarrow> nat \<Rightarrow> entity list \<Rightarrow> entity \<Rightarrow> db_error + entity list" where
  "update_row m i rows r =
     (if length rows \<le> i then Inl NoSuchRow
      else if admissible m (take i rows @ drop (Suc i) rows) r then Inr (rows[i := r])
      else Inl IntegrityError)"

definition delete_row :: "nat \<Rightarrow> entity list \<Rightarrow> db_error + entity list" where
  "delete_row i rows =
     (if length rows \<le> i then Inl NoSuchRow else Inr (take i rows @ drop (Suc i) rows))"

text \<open>The states of the table of \<open>m\<close>: what inserts, updates and deletes build from the empty table.\<close>

inductive table_state :: "model \<Rightarrow> entity list \<Rightarrow> bool" for m :: model where
  empty: "table_state m []"
| inserted: "table_state m rows \<Longrightarrow> insert_row m k rows r = Inr rows' \<Longrightarrow> table_state m rows'"
| updated: "table_state m rows \<Longrightarrow> update_row m i rows r = Inr rows' \<Longrightarrow> table_state m rows'"
| deleted: "table_state m rows \<Longrightarrow> delete_row i rows = Inr rows' \<Longrightarrow> table_state m rows'"

section \<open>Names, a clock and rows for concrete runs\<close>

definition field_names :: "model \<Rightarrow> string list" where
  "field_names m = map fst (model_fields m)"

text \<open>A clock that reads noon of 1 January 2025 at every call.\<close>

definition noon :: "string \<Rightarrow> datetime" where
  "noon n = Datetime 2025 1 1 12 0 0 0"

text \<open>Rows for concrete tables: a user, a user context, a chat-session/document link.\<close>

definition user_row :: "int option \<Rightarrow> string \<Rightarrow> entity" where
  "user_row i e =
     [(''id'', case i of None \<Rightarrow> PNone | Some k \<Rightarrow> PInt k), (''email'', PStr (py e)),
      (''password_hash'', PStr (py ''hash'')), (''user_type'', PStr (py ''b2c'')),
      (''account_type'', PNone), (''organization_id'', PNone),
      (''is_active'', PBool True), (''can_generate_api_keys'', PBool False),
      (''created_at'', PDatetime (Datetime 2025 1 1 12 0 0 0)),
      (''updated_at'', PDatetime (Datetime 2025 1 1 12 0 0 0))]"

definition user_context_row :: "int option \<Rightarrow> int \<Rightarrow> entity" where
  "user_context_row i u =
     [(''id'', case i of None \<Rightarrow> PNone | Some k \<Rightarrow> PInt k), (''user_id'', PInt u),
      (''user_type_context'', PStr (py ''private_person'')),
      (''home_location'', PStr (py ''Sofia'')), (''preferred_language'', PStr (py ''bg'')),
      (''profession'', PStr (py ''lawyer'')), (''personal_notes'', PStr []),
      (''context_data'', PDict []),
      (''created_at'', PDatetime (Datetime 2025 1 1 12 0 0 0)),
      (''updated_at'', PDatetime (Datetime 2025 1 1 12 0 0 0))]"

definition link_row :: "int \<Rightarrow> int \<Rightarrow> entity" where
  "link_row s d =
     [(''chat_session_id'', PInt s), (''document_id'', PInt d),
      (''added_at'', PDatetime (Datetime 2025 1 1 12 0 0 0))]"

section \<open>Facts about validation\<close>

declare ndigits.simps [simp del] strip_zeros.simps [simp del]

lemma py_eq_iff [simp]: "py a = py b \<longleftrightarrow> a = b"
  by (simp add: py_def inj_map_eq_map[OF inj_of_char])

lemma length_py [simp]: "length (py s) = length s"
  by (simp add: py_def)

lemma of_char_less_256: "(of_char ch :: nat) < 256"
proof -
  have "(of_char ch :: nat) mod 256 < 256" by simp
  then show ?thesis by (simp only: of_char_mod_256)
qed

text \<open>Text written in this file's characters holds no surrogate.\<close>

lemma py_no_surrogate [simp]: "\<not> list_ex surrogate (py s)"
proof -
  have "\<not> surrogate (of_char ch)" for ch
    using of_char_less_256[of ch] unfolding surrogate_def by linarith
  then show ?thesis by (simp add: py_def list_ex_iff)
qed

lemma list_ex_replicate [simp]: "list_ex P (replicate n x) \<longleftrightarrow> 0 < n \<and> P x"
  by (auto simp: list_ex_iff)

lemma item_errors_nonempty:
  "Inl es \<in> set rs \<Longrightarrow> es \<noteq> [] \<Longrightarrow> item_errors i rs \<noteq> []"
  by (induction i rs rule: item_errors.induct) auto

lemma check_Inl_nonempty: "check T c v = Inl es \<Longrightarrow> es \<noteq> []"
  by (induction T c v arbitrary: es rule: check.induct)
    (auto simp: Let_def split: pyval.splits option.splits if_splits)

lemma validate_field_Inl_nonempty: "validate_field utcnow inp f = Inl es \<Longrightarrow> es \<noteq> []"
  by (cases f) (auto split: option.splits sum.splits dest: check_Inl_nonempty)

lemma field_errors_nonempty:
  "Inl es \<in> set rs \<Longrightarrow> es \<noteq> [] \<Longrightarrow> field_errors rs \<noteq> []"
  by (induction rs rule: field_errors.induct) auto

lemma field_errors_all_Inr:
  "\<forall>r \<in> set rs. \<exists>v. r = Inr v \<Longrightarrow> field_errors rs = []"
  by (induction rs rule: field_errors.induct) auto

text \<open>One failing field makes the whole payload fail.\<close>

lemma rejects_field:
  assumes "f \<in> set (model_fields m)" and "validate_field utcnow inp f = Inl es"
  shows "rejects m utcnow inp"
proof -
  have "Inl es \<in> set (map (validate_field utcnow inp) (model_fields m))"
    using assms by force
  moreover have "es \<noteq> []"
    using assms(2) by (rule validate_field_Inl_nonempty)
  ultimately have "field_errors (map (validate_field utcnow inp) (model_fields m)) \<noteq> []"
    by (rule field_errors_nonempty)
  then show ?thesis
    by (simp add: rejects_def validate_def Let_def)
qed

lemma rejects_iff_not_accepts: "rejects m utcnow inp \<longleftrightarrow> \<not> accepts m utcnow inp"
  by (simp add: rejects_def accepts_def split: sum.splits)

section \<open>Facts about table states\<close>

lemma distinct_map_drop_nth:
  "distinct (map f xs) \<Longrightarrow> distinct (map f (take i xs @ drop (Suc i) xs))"
proof (induction xs arbitrary: i)
  case Nil
  then show ?case by simp
next
  case (Cons x xs)
  show ?case
  proof (cases i)
    case 0
    with Cons.prems show ?thesis by simp
  next
    case (Suc j)
    have "f x \<notin> f ` set (take j xs)" "f x \<notin> f ` set (drop (Suc j) xs)"
      using Cons.prems by (auto dest: in_set_takeD in_set_dropD)
    with Cons Suc show ?thesis by simp
  qed
qed

lemma distinct_map_update:
  assumes "i < length xs"
    and "distinct (map f (take i xs @ drop (Suc i) xs))"
    and "f r \<notin> set (map f (take i xs @ drop (Suc i) xs))"
  shows "distinct (map f (xs[i := r]))"
proof -
  have "xs[i := r] = take i xs @ r # drop (Suc i) xs"
    using assms(1) by (rule upd_conv_take_nth_drop)
  with assms(2,3) show ?thesis by auto
qed

lemma set_drop_nth: "set (take i xs @ drop (Suc i) xs) \<subseteq> set xs"
  by (auto dest: in_set_takeD in_set_dropD)

lemma update_row_Inr:
  assumes "update_row m i rows r = Inr rows'"
  shows "i < length rows" and "admissible m (take i rows @ drop (Suc i) rows) r"
    and "rows' = rows[i := r]"
  using assms by (auto simp: update_row_def split: if_splits)

text \<open>A column that is UNIQUE and NOT NULL holds pairwise different values.\<close>

lemma unique_column_invariant:
  assumes "table_state m rows"
    and "n \<in> set (unique_columns m)" and "n \<in> set (not_null_columns m)"
  shows "distinct (map (column n) rows)"
  using assms(1)
proof (induction rule: table_state.induct)
  case empty
  show ?case by simp
next
  case (inserted rows k r rows')
  then show ?case using assms(2,3)
    by (auto simp: insert_row_def admissible_def Let_def split: if_splits)
next
  case (updated rows i r rows')
  note u = update_row_Inr[OF updated.hyps(2)]
  from u(2) assms(2,3)
  have "column n r \<notin> set (map (column n) (take i rows @ drop (Suc i) rows))"
    unfolding admissible_def by blast
  with distinct_map_drop_nth[OF updated.IH, of i] u(1) show ?case
    unfolding u(3) by (intro distinct_map_update)
next
  case (deleted rows i rows')
  then show ?case
    by (auto simp: delete_row_def distinct_map_drop_nth simp del: map_append split: if_splits)
qed

text \<open>The primary key identifies the row.\<close>

lemma primary_key_invariant:
  assumes "table_state m rows"
  shows "distinct (map (key (primary_key_columns m)) rows)"
  using assms
proof (induction rule: table_state.induct)
  case empty
  show ?case by simp
next
  case (inserted rows k r rows')
  then show ?case
    by (auto simp: insert_row_def admissible_def Let_def split: if_splits)
next
  case (updated rows i r rows')
  note u = update_row_Inr[OF updated.hyps(2)]
  from u(2) have "key (primary_key_columns m) r
      \<notin> set (map (key (primary_key_columns m)) (take i rows @ drop (Suc i) rows))"
    unfolding admissible_def by blast
  with distinct_map_drop_nth[OF updated.IH, of i] u(1) show ?case
    unfolding u(3) by (intro distinct_map_update)
next
  case (deleted rows i rows')
  then show ?case
    by (auto simp: delete_row_def distinct_map_drop_nth simp del: map_append split: if_splits)
qed

lemma not_null_invariant:
  assumes "table_state m rows" and "n \<in> set (not_null_columns m)" and "r \<in> set rows"
  shows "column n r \<noteq> PNone"
  using assms(1,3)
proof (induction arbitrary: r rule: table_state.induct)
  case empty
  then show ?case by simp
next
  case (inserted rows k r0 rows')
  then show ?case using assms(2)
    by (auto simp: insert_row_def admissible_def Let_def split: if_splits)
next
  case (updated rows i r0 rows')
  note u = update_row_Inr[OF updated.hyps(2)]
  from updated.prems have "r = r0 \<or> r \<in> set rows"
    unfolding u(3) using set_update_subset_insert by fastforce
  with u(2) assms(2) updated.IH show ?case
    unfolding admissible_def by blast
next
  case (deleted rows i rows')
  then show ?case using set_drop_nth
    by (fastforce simp: delete_row_def split: if_splits)
qed

lemma distinct_map_filter_le_1:
  "distinct (map f xs) \<Longrightarrow> length (filter (\<lambda>x. f x = v) xs) \<le> 1"
  by (induction xs) (auto simp: image_iff filter_empty_conv)

lemma distinct_map_nth_neq:
  "distinct (map f xs) \<Longrightarrow> i < length xs \<Longrightarrow> j < length xs \<Longrightarrow> i \<noteq> j \<Longrightarrow>
     f (xs ! i) \<noteq> f (xs ! j)"
  by (metis distinct_conv_nth length_map nth_map)

section \<open>Facts about accepted payloads\<close>

lemma field_errors_empty_D:
  "field_errors rs = [] \<Longrightarrow> Inl es \<in> set rs \<Longrightarrow> es = []"
  using field_errors_nonempty by blast

lemma validate_field_name: "validate_field utcnow inp f = Inr (n, v) \<Longrightarrow> n = fst f"
  by (cases f) (auto split: option.splits sum.splits)

lemma validate_Inr_D:
  assumes "validate m utcnow inp = Inr r"
  shows "r = map projr (map (validate_field utcnow inp) (model_fields m))"
    and "f \<in> set (model_fields m) \<Longrightarrow> \<exists>v. validate_field utcnow inp f = Inr (fst f, v)"
proof -
  from assms have e: "field_errors (map (validate_field utcnow inp) (model_fields m)) = []"
    and r: "r = map projr (map (validate_field utcnow inp) (model_fields m))"
    by (auto simp: validate_def Let_def split: if_splits)
  show "r = map projr (map (validate_field utcnow inp) (model_fields m))" by (rule r)
  assume f: "f \<in> set (model_fields m)"
  show "\<exists>v. validate_field utcnow inp f = Inr (fst f, v)"
  proof (cases "validate_field utcnow inp f")
    case (Inl es)
    with f have "Inl es \<in> set (map (validate_field utcnow inp) (model_fields m))" by force
    with e have "es = []" by (rule field_errors_empty_D)
    with Inl validate_field_Inl_nonempty show ?thesis by blast
  next
    case (Inr p)
    then show ?thesis using validate_field_name by (cases p) auto
  qed
qed

lemma map_of_validated:
  assumes "distinct (map fst fs)"
    and "\<And>g. g \<in> set fs \<Longrightarrow> \<exists>v. validate_field utcnow inp g = Inr (fst g, v)"
    and "f \<in> set fs" and "validate_field utcnow inp f = Inr (n, v)"
  shows "map_of (map projr (map (validate_field utcnow inp) fs)) n = Some v"
  using assms
proof (induction fs)
  case Nil
  then show ?case by simp
next
  case (Cons g fs)
  from Cons.prems(2)[of g] obtain w where g: "validate_field utcnow inp g = Inr (fst g, w)"
    by auto
  have n: "n = fst f" using Cons.prems(4) by (rule validate_field_name)
  show ?case
  proof (cases "f = g")
    case True
    with g Cons.prems(4) show ?thesis by simp
  next
    case False
    with Cons.prems(3) have fin: "f \<in> set fs" by simp
    with Cons.prems(1) n have "fst g \<noteq> n" by force
    moreover have "map_of (map projr (map (validate_field utcnow inp) fs)) n = Some v"
      using Cons.prems(1,2,4) fin by (intro Cons.IH) auto
    ultimately show ?thesis using g by simp
  qed
qed


lemma validated_supplied:
  assumes "validate m utcnow inp = Inr r" and "distinct (field_names m)"
    and "(n, T, c) \<in> set (model_fields m)" and "inp n = Some x"
  shows "\<exists>v. check T c x = Inr v \<and> map_of r n = Some v"
proof -
  from validate_Inr_D(2)[OF assms(1,3)] obtain v
    where v: "validate_field utcnow inp (n, T, c) = Inr (n, v)" by auto
  with assms(4) have d: "check T c x = Inr v"
    by (auto split: sum.splits)
  have "map_of r n = Some v"
    unfolding validate_Inr_D(1)[OF assms(1)]
    using assms(2,3) v validate_Inr_D(2)[OF assms(1)]
    by (intro map_of_validated[where f = "(n, T, c)"]) (auto simp: field_names_def)
  with d show ?thesis by simp
qed

lemmas eval_defs = validate_def get_default_def str_error_def enum_values_def Field_def
  decimal_error_def coefficient_def round_prec_def ndigits.simps strip_zeros.simps

lemmas model_defs = Organization_def User_def UserContext_def APIKey_def
      Subscription_def TokenUsage_def Document_def ChatSession_def ChatSessionDocument_def
      Query_def BillingRecord_def UserCreate_def UserContextCreate_def UserContextUpdate_def
      OrganizationCreate_def QueryCreate_def SubscriptionCreate_def APIKeyCreate_def
      DocumentUpload_def ChatSessionCreate_def

lemmas table_defs = insert_row_def assign_key_def autoincrement_column_def admissible_def
  primary_key_columns_def
  unique_columns_def not_null_columns_def key_def column_def

section \<open>Subscription\<close>


text \<open>
  C1. The week-pass fields (\<^verbatim>\<open>token_allowance\<close>, \<^verbatim>\<open>week_pass_expires_at\<close>,
  \<^verbatim>\<open>week_pass_price\<close>) and the bestprice field (\<^verbatim>\<open>current_price_per_1k_tokens\<close>) are
  not kept apart by the schema: a payload that gives a concrete value to every one
  of them is accepted, with \<^verbatim>\<open>pricing_plan\<close> \<^verbatim>\<open>week_pass\<close> as well as \<^verbatim>\<open>bestprice\<close>,
  and the instance holds all four values.
\<close>

theorem subscription_accepts_both_field_groups:
  "validate Subscription utcnow
     (map_of [(''user_id'', PInt 1), (''pricing_plan'', PStr (py ''week_pass'')),
        (''token_allowance'', PInt 100000),
        (''week_pass_expires_at'', PDatetime (Datetime 2025 1 8 0 0 0 0)),
        (''week_pass_price'', PDecimal (Decimal False [9, 9, 9] (- 2))),
        (''current_price_per_1k_tokens'', PDecimal (Decimal False [2, 5] (- 4)))])
   = Inr [(''id'', PNone), (''user_id'', PInt 1), (''pricing_plan'', PStr (py ''week_pass'')),
        (''is_active'', PBool True), (''token_allowance'', PInt 100000),
        (''tokens_used'', PInt 0),
        (''week_pass_expires_at'', PDatetime (Datetime 2025 1 8 0 0 0 0)),
        (''week_pass_price'', PDecimal (Decimal False [9, 9, 9] (- 2))),
        (''current_price_per_1k_tokens'', PDecimal (Decimal False [2, 5] (- 4))),
        (''total_tokens_consumed'', PInt 0),
        (''created_at'', PDatetime (utcnow ''created_at'')),
        (''updated_at'', PDatetime (utcnow ''updated_at''))]
   \<and>
   validate Subscription utcnow
     (map_of [(''user_id'', PInt 1), (''pricing_plan'', PStr (py ''bestprice'')),
        (''token_allowance'', PInt 100000),
        (''week_pass_expires_at'', PDatetime (Datetime 2025 1 8 0 0 0 0)),
        (''week_pass_price'', PDecimal (Decimal False [9, 9, 9] (- 2))),
        (''current_price_per_1k_tokens'', PDecimal (Decimal False [2, 5] (- 4)))])
   = Inr [(''id'', PNone), (''user_id'', PInt 1), (''pricing_plan'', PStr (py ''bestprice'')),
        (''is_active'', PBool True), (''token_allowance'', PInt 100000),
        (''tokens_used'', PInt 0),
        (''week_pass_expires_at'', PDatetime (Datetime 2025 1 8 0 0 0 0)),
        (''week_pass_price'', PDecimal (Decimal False [9, 9, 9] (- 2))),
        (''current_price_per_1k_tokens'', PDecimal (Decimal False [2, 5] (- 4))),
        (''total_tokens_consumed'', PInt 0),
        (''created_at'', PDatetime (utcnow ''created_at'')),
        (''updated_at'', PDatetime (utcnow ''updated_at''))]"
  by (simp add: eval_defs Subscription_def PricingPlan_def)

text \<open>
  C3. Nothing relates \<^verbatim>\<open>tokens_used\<close> to \<^verbatim>\<open>token_allowance\<close>: a week-pass payload
  is accepted whatever the two numbers are, so there is an accepted one with
  \<^verbatim>\<open>tokens_used\<close> above \<^verbatim>\<open>token_allowance\<close> (101 used of 100 allowed).
\<close>

theorem tokens_used_not_bounded_by_allowance:
  "validate Subscription utcnow
     (map_of [(''user_id'', PInt uid), (''pricing_plan'', PStr (py ''week_pass'')),
        (''token_allowance'', PInt n), (''tokens_used'', PInt m)])
   = Inr [(''id'', PNone), (''user_id'', PInt uid), (''pricing_plan'', PStr (py ''week_pass'')),
        (''is_active'', PBool True), (''token_allowance'', PInt n),
        (''tokens_used'', PInt m),
        (''week_pass_expires_at'', PNone),
        (''week_pass_price'', PNone),
        (''current_price_per_1k_tokens'', PNone),
        (''total_tokens_consumed'', PInt 0),
        (''created_at'', PDatetime (utcnow ''created_at'')),
        (''updated_at'', PDatetime (utcnow ''updated_at''))]
   \<and>
   (\<exists>n' m'. n' < m' \<and>
      accepts Subscription utcnow
        (map_of [(''user_id'', PInt uid), (''pricing_plan'', PStr (py ''week_pass'')),
           (''token_allowance'', PInt n'), (''tokens_used'', PInt m')]))"
proof
  show "validate Subscription utcnow
     (map_of [(''user_id'', PInt uid), (''pricing_plan'', PStr (py ''week_pass'')),
        (''token_allowance'', PInt n), (''tokens_used'', PInt m)])
   = Inr [(''id'', PNone), (''user_id'', PInt uid), (''pricing_plan'', PStr (py ''week_pass'')),
        (''is_active'', PBool True), (''token_allowance'', PInt n),
        (''tokens_used'', PInt m),
        (''week_pass_expires_at'', PNone),
        (''week_pass_price'', PNone),
        (''current_price_per_1k_tokens'', PNone),
        (''total_tokens_consumed'', PInt 0),
        (''created_at'', PDatetime (utcnow ''created_at'')),
        (''updated_at'', PDatetime (utcnow ''updated_at''))]"
    by (simp add: eval_defs Subscription_def PricingPlan_def)
  have "(100::int) < 101 \<and>
      accepts Subscription utcnow
        (map_of [(''user_id'', PInt uid), (''pricing_plan'', PStr (py ''week_pass'')),
           (''token_allowance'', PInt 100), (''tokens_used'', PInt 101)])"
    by (simp add: accepts_def eval_defs Subscription_def PricingPlan_def)
  then show "\<exists>n' m'. n' < m' \<and>
      accepts Subscription utcnow
        (map_of [(''user_id'', PInt uid), (''pricing_plan'', PStr (py ''week_pass'')),
           (''token_allowance'', PInt n'), (''tokens_used'', PInt m')])"
    by blast
qed



section \<open>String lengths\<close>

lemma str_field_too_long:
  assumes "T = T_str \<or> T = T_Optional T_str" and "max_length c = Some k"
    and "inp n = Some (PStr s)" and "k < length s"
  shows "\<exists>es. validate_field utcnow inp (n, T, c) = Inl es"
  using assms by (auto simp: str_error_def split: option.splits)

lemma str_field_too_short:
  assumes "T = T_str \<or> T = T_Optional T_str" and "min_length c = Some k"
    and "inp n = Some (PStr s)" and "length s < k"
  shows "\<exists>es. validate_field utcnow inp (n, T, c) = Inl es"
  using assms by (auto simp: str_error_def split: option.splits)

lemma str_field_within:
  assumes "T = T_str \<or> T = T_Optional T_str" and "max_length c = Some k"
    and "min_length c = None"
    and "inp n = Some (PStr s)" and "length s \<le> k" and "\<not> list_ex surrogate s"
  shows "validate_field utcnow inp (n, T, c) = Inr (n, PStr s)"
  using assms by (auto simp: str_error_def split: option.splits)

lemma str_field_long_enough:
  assumes "T = T_str \<or> T = T_Optional T_str" and "min_length c = Some k"
    and "max_length c = None"
    and "inp n = Some (PStr s)" and "k \<le> length s" and "\<not> list_ex surrogate s"
  shows "validate_field utcnow inp (n, T, c) = Inr (n, PStr s)"
  using assms by (auto simp: str_error_def split: option.splits)

lemma str_field_errors:
  assumes "T = T_str \<or> T = T_Optional T_str" and "inp n = Some (PStr s)"
    and "validate_field utcnow inp (n, T, c) = Inl es"
  shows "((n, [], String_too_long) \<in> set es \<longrightarrow> (\<exists>k. max_length c = Some k \<and> k < length s)) \<and>
    ((n, [], String_too_short) \<in> set es \<longrightarrow> (\<exists>k. min_length c = Some k \<and> length s < k))"
  using assms by (auto simp: str_error_def split: option.splits if_splits)

lemma str_field_surrogate:
  assumes "T = T_str \<or> T = T_Optional T_str"
    and "min_length c \<noteq> None \<or> max_length c \<noteq> None"
    and "inp n = Some (PStr s)" and "list_ex surrogate s"
  shows "validate_field utcnow inp (n, T, c) = Inl [(n, [], String_unicode)]"
  using assms by (auto simp: str_error_def)

lemma rejects_Inl: "rejects m utcnow inp \<Longrightarrow> \<exists>es. validate m utcnow inp = Inl es"
  by (simp add: rejects_def split: sum.splits)

text \<open>
  C4, as stated, fails. The table class \<^verbatim>\<open>Query\<close> is constructed without validation:
  a payload whose \<^verbatim>\<open>query_text\<close> has 5001 characters, above \<^verbatim>\<open>max_length=5000\<close>,
  builds an instance and raises nothing. And a string within the limit does not
  always pass the field: \<^verbatim>\<open>QueryCreate\<close> refuses the \<^verbatim>\<open>query_text\<close> of one character
  U+D800 with \<^verbatim>\<open>string_unicode\<close>.
\<close>

theorem max_length_counterexample:
  "(''query_text'', T_str, Field\<lparr>max_length := Some 5000\<rparr>) \<in> set (model_fields Query) \<and>
   5000 < length (replicate 5001 (97::nat)) \<and>
   model_init Query noon
     (map_of [(''user_id'', PInt 1), (''query_type'', PStr (py ''light'')),
        (''query_text'', PStr (replicate 5001 97)), (''language'', PStr (py ''en''))])
   = Inr [(''id'', PNone), (''user_id'', PInt 1), (''chat_session_id'', PNone),
        (''query_type'', PStr (py ''light'')), (''query_text'', PStr (replicate 5001 97)),
        (''response_text'', PStr []), (''language'', PStr (py ''en'')),
        (''tokens_consumed'', PInt 0), (''processing_time_ms'', PNone),
        (''sources'', PList []), (''chunks'', PList []), (''context_used'', PDict []),
        (''created_at'', PDatetime (Datetime 2025 1 1 12 0 0 0))] \<and>
   length [55296::nat] \<le> 5000 \<and>
   validate_field noon
     (map_of [(''query_text'', PStr [55296]), (''query_type'', PStr (py ''light'')),
        (''language'', PStr (py ''en''))])
     (''query_text'', T_str, Field\<lparr>max_length := Some 5000\<rparr>)
   = Inl [(''query_text'', [], String_unicode)]"
  by (simp add: model_init_def construct_def get_default_def str_error_def surrogate_def
      Query_def Field_def noon_def)

text \<open>
  C4, amended. Where a payload is validated (\<^verbatim>\<open>model_validate\<close> of any class, and the
  constructor of a class with \<^verbatim>\<open>table=False\<close> such as \<^verbatim>\<open>QueryCreate\<close>), a string longer
  than the \<^verbatim>\<open>max_length\<close> \<open>k\<close> of its field (annotation \<^verbatim>\<open>str\<close> or \<^verbatim>\<open>Optional[str]\<close>)
  makes the validation fail; a string within \<open>k\<close> raises no length error on that
  field, and passes the field's check when it holds no surrogate code point (no
  field of the file combines \<^verbatim>\<open>max_length\<close> with \<^verbatim>\<open>min_length\<close>, and every
  \<^verbatim>\<open>max_length\<close> of the file sits on such a field). The constructor of a class with
  \<^verbatim>\<open>table=True\<close> validates nothing. For \<^verbatim>\<open>QueryCreate.query_text\<close> the limit is 5000.
\<close>

theorem max_length_enforced:
  "((n, T, c) \<in> set (model_fields m) \<and> (T = T_str \<or> T = T_Optional T_str) \<and>
      max_length c = Some k \<and> inp n = Some (PStr s) \<longrightarrow>
      (k < length s \<longrightarrow>
         rejects m utcnow inp \<and> (\<not> table m \<longrightarrow> (\<exists>es. model_init m utcnow inp = Inl es))) \<and>
      (length s \<le> k \<longrightarrow>
         (\<forall>es. validate_field utcnow inp (n, T, c) = Inl es \<longrightarrow>
            (n, [], String_too_long) \<notin> set es)) \<and>
      (length s \<le> k \<and> min_length c = None \<and> \<not> list_ex surrogate s \<longrightarrow>
         validate_field utcnow inp (n, T, c) = Inr (n, PStr s)))
   \<and>
   (table m \<longrightarrow> model_init m utcnow inp = Inr (construct m utcnow inp))
   \<and>
   (inp' ''query_text'' = Some (PStr s') \<longrightarrow>
      (5000 < length s' \<longrightarrow> (\<exists>es. model_init QueryCreate utcnow inp' = Inl es)) \<and>
      (length s' \<le> 5000 \<longrightarrow>
         (\<forall>es. validate_field utcnow inp'
             (''query_text'', T_str, Field\<lparr>max_length := Some 5000\<rparr>) = Inl es \<longrightarrow>
            (''query_text'', [], String_too_long) \<notin> set es)) \<and>
      (length s' \<le> 5000 \<and> \<not> list_ex surrogate s' \<longrightarrow>
         validate_field utcnow inp' (''query_text'', T_str, Field\<lparr>max_length := Some 5000\<rparr>)
           = Inr (''query_text'', PStr s')))
   \<and>
   list_all (\<lambda>m. list_all (\<lambda>(n, T, c). max_length c \<noteq> None \<longrightarrow>
       min_length c = None \<and> (T = T_str \<or> T = T_Optional T_str)) (model_fields m)) all_models"
proof (intro conjI impI allI)
  assume a: "(n, T, c) \<in> set (model_fields m) \<and> (T = T_str \<or> T = T_Optional T_str) \<and>
      max_length c = Some k \<and> inp n = Some (PStr s)"
  {
    assume "k < length s"
    with a obtain es where "validate_field utcnow inp (n, T, c) = Inl es"
      using str_field_too_long by blast
    with a show r: "rejects m utcnow inp" using rejects_field by blast
    assume "\<not> table m"
    with r show "\<exists>es. model_init m utcnow inp = Inl es"
      using rejects_Inl by (simp add: model_init_def)
  next
    fix es
    assume "length s \<le> k" and "validate_field utcnow inp (n, T, c) = Inl es"
    with a show "(n, [], String_too_long) \<notin> set es"
      using str_field_errors[of T inp n s utcnow c es] by auto
  next
    assume "length s \<le> k \<and> min_length c = None \<and> \<not> list_ex surrogate s"
    with a show "validate_field utcnow inp (n, T, c) = Inr (n, PStr s)"
      using str_field_within by blast
  }
next
  assume "table m"
  then show "model_init m utcnow inp = Inr (construct m utcnow inp)"
    by (simp add: model_init_def)
next
  let ?f = "(''query_text'', T_str, Field\<lparr>max_length := Some 5000\<rparr>)"
  assume a: "inp' ''query_text'' = Some (PStr s')"
  have f: "?f \<in> set (model_fields QueryCreate)" and t: "\<not> table QueryCreate"
    by (simp_all add: QueryCreate_def)
  {
    assume "5000 < length s'"
    with a have "\<exists>es. validate_field utcnow inp' ?f = Inl es"
      by (intro str_field_too_long) (simp_all add: Field_def)
    with f have "rejects QueryCreate utcnow inp'" using rejects_field by blast
    with t show "\<exists>es. model_init QueryCreate utcnow inp' = Inl es"
      using rejects_Inl by (simp add: model_init_def)
  next
    fix es
    assume "length s' \<le> 5000" and "validate_field utcnow inp' ?f = Inl es"
    with a show "(''query_text'', [], String_too_long) \<notin> set es"
      using str_field_errors[of T_str inp' "''query_text''" s' utcnow
          "Field\<lparr>max_length := Some 5000\<rparr>" es]
      by (auto simp: Field_def)
  next
    assume "length s' \<le> 5000 \<and> \<not> list_ex surrogate s'"
    with a show "validate_field utcnow inp' ?f = Inr (''query_text'', PStr s')"
      by (intro str_field_within[where k = 5000]) (simp_all add: Field_def)
  }
next
  show "list_all (\<lambda>m. list_all (\<lambda>(n, T, c). max_length c \<noteq> None \<longrightarrow>
       min_length c = None \<and> (T = T_str \<or> T = T_Optional T_str)) (model_fields m)) all_models"
    by (simp add: all_models_def Field_def model_defs)
qed

theorem max_length_enforced_witness:
  "(\<exists>es. model_init QueryCreate noon
     (map_of [(''query_text'', PStr (replicate 5001 97)), (''query_type'', PStr (py ''light'')),
        (''language'', PStr (py ''en''))]) = Inl es)
   \<and> validate_field noon
     (map_of [(''query_text'', PStr (replicate 5000 97)), (''query_type'', PStr (py ''light'')),
        (''language'', PStr (py ''en''))])
     (''query_text'', T_str, Field\<lparr>max_length := Some 5000\<rparr>)
     = Inr (''query_text'', PStr (replicate 5000 97))"
proof -
  let ?c = "Field\<lparr>max_length := Some 5000\<rparr>"
  let ?f = "(''query_text'', T_str, ?c)"
  let ?long = "map_of [(''query_text'', PStr (replicate 5001 97)),
    (''query_type'', PStr (py ''light'')), (''language'', PStr (py ''en''))]"
  let ?ok = "map_of [(''query_text'', PStr (replicate 5000 97)),
    (''query_type'', PStr (py ''light'')), (''language'', PStr (py ''en''))]"
  have f: "?f \<in> set (model_fields QueryCreate)" "\<not> table QueryCreate"
    by (simp_all add: QueryCreate_def)
  have c: "max_length ?c = Some 5000" "min_length ?c = None"
    by (simp_all add: Field_def)
  have l: "?long ''query_text'' = Some (PStr (replicate 5001 97))"
    "(5000::nat) < length (replicate 5001 (97::nat))" by simp_all
  have k: "?ok ''query_text'' = Some (PStr (replicate 5000 97))"
    "length (replicate 5000 (97::nat)) \<le> (5000::nat)"
    "\<not> list_ex surrogate (replicate 5000 97)" by (simp_all add: surrogate_def)
  from max_length_enforced[where n = "''query_text''" and T = T_str and c = ?c
      and m = QueryCreate and k = 5000 and inp = ?long and s = "replicate 5001 97"
      and utcnow = noon] f c l
  have 1: "\<exists>es. model_init QueryCreate noon ?long = Inl es" by blast
  from max_length_enforced[where n = "''query_text''" and T = T_str and c = ?c
      and m = QueryCreate and k = 5000 and inp = ?ok and s = "replicate 5000 97"
      and utcnow = noon] f c k
  have 2: "validate_field noon ?ok ?f = Inr (''query_text'', PStr (replicate 5000 97))"
    by blast
  from 1 2 show ?thesis by blast
qed

text \<open>
  C9, as stated, fails in its second half: a password of 8 characters that are
  surrogate code points (U+DC00) is long enough, yet the password field refuses it
  with \<^verbatim>\<open>string_unicode\<close> and the payload is rejected.
\<close>

theorem password_min_length_counterexample:
  "8 \<le> length (replicate 8 (56320::nat)) \<and>
   validate_field noon
     (map_of [(''email'', PStr (py ''ana@example.eu'')),
        (''password'', PStr (replicate 8 56320)), (''user_type'', PStr (py ''b2c''))])
     (''password'', T_str, Field\<lparr>min_length := Some 8\<rparr>)
   = Inl [(''password'', [], String_unicode)] \<and>
   rejects UserCreate noon
     (map_of [(''email'', PStr (py ''ana@example.eu'')),
        (''password'', PStr (replicate 8 56320)), (''user_type'', PStr (py ''b2c''))])"
  by (simp add: rejects_def eval_defs surrogate_def UserCreate_def UserType_def)

text \<open>
  C9, amended. \<^verbatim>\<open>UserCreate.password\<close> has \<^verbatim>\<open>min_length=8\<close>: a payload whose password
  is a string of fewer than 8 characters is rejected; a password of 8 or more
  characters raises no too-short error, and passes the field's check when it holds
  no surrogate code point (one that does is refused with \<^verbatim>\<open>string_unicode\<close>); no
  other field of any class declares a \<^verbatim>\<open>min_length\<close>.
\<close>

theorem password_min_length:
  "(inp ''password'' = Some (PStr s) \<longrightarrow>
      (length s < 8 \<longrightarrow> rejects UserCreate utcnow inp) \<and>
      (8 \<le> length s \<longrightarrow>
         (\<forall>es. validate_field utcnow inp (''password'', T_str, Field\<lparr>min_length := Some 8\<rparr>)
             = Inl es \<longrightarrow> (''password'', [], String_too_short) \<notin> set es)) \<and>
      (8 \<le> length s \<and> \<not> list_ex surrogate s \<longrightarrow>
         validate_field utcnow inp (''password'', T_str, Field\<lparr>min_length := Some 8\<rparr>)
           = Inr (''password'', PStr s)) \<and>
      (list_ex surrogate s \<longrightarrow>
         validate_field utcnow inp (''password'', T_str, Field\<lparr>min_length := Some 8\<rparr>)
           = Inl [(''password'', [], String_unicode)]))
   \<and>
   concat (map (\<lambda>m. map (\<lambda>(n, T, c). (class_name m, n, min_length c))
        (filter (\<lambda>(n, T, c). min_length c \<noteq> None) (model_fields m))) all_models)
     = [(''UserCreate'', ''password'', Some 8)]"
proof (intro conjI impI allI)
  let ?f = "(''password'', T_str, Field\<lparr>min_length := Some 8\<rparr>)"
  assume a: "inp ''password'' = Some (PStr s)"
  have f: "?f \<in> set (model_fields UserCreate)"
    by (simp add: UserCreate_def)
  {
    assume "length s < 8"
    with a have "\<exists>es. validate_field utcnow inp ?f = Inl es"
      by (intro str_field_too_short) (simp_all add: Field_def)
    with f show "rejects UserCreate utcnow inp" using rejects_field by blast
  next
    fix es
    assume "8 \<le> length s" and "validate_field utcnow inp ?f = Inl es"
    with a show "(''password'', [], String_too_short) \<notin> set es"
      using str_field_errors[of T_str inp "''password''" s utcnow
          "Field\<lparr>min_length := Some 8\<rparr>" es]
      by (auto simp: Field_def)
  next
    assume "8 \<le> length s \<and> \<not> list_ex surrogate s"
    with a show "validate_field utcnow inp ?f = Inr (''password'', PStr s)"
      by (intro str_field_long_enough[where k = 8]) (simp_all add: Field_def)
  next
    assume "list_ex surrogate s"
    with a show "validate_field utcnow inp ?f = Inl [(''password'', [], String_unicode)]"
      by (intro str_field_surrogate) (simp_all add: Field_def)
  }
next
  show "concat (map (\<lambda>m. map (\<lambda>(n, T, c). (class_name m, n, min_length c))
        (filter (\<lambda>(n, T, c). min_length c \<noteq> None) (model_fields m))) all_models)
     = [(''UserCreate'', ''password'', Some 8)]"
    by (simp add: all_models_def Field_def model_defs)
qed

theorem password_min_length_witness:
  "rejects UserCreate noon
     (map_of [(''email'', PStr (py ''ana@example.eu'')), (''password'', PStr (py ''1234567'')),
        (''user_type'', PStr (py ''b2c''))])
   \<and> validate_field noon
     (map_of [(''email'', PStr (py ''ana@example.eu'')), (''password'', PStr (py ''12345678'')),
        (''user_type'', PStr (py ''b2c''))])
     (''password'', T_str, Field\<lparr>min_length := Some 8\<rparr>)
     = Inr (''password'', PStr (py ''12345678''))"
proof -
  let ?short = "map_of [(''email'', PStr (py ''ana@example.eu'')),
    (''password'', PStr (py ''1234567'')), (''user_type'', PStr (py ''b2c''))]"
  let ?ok = "map_of [(''email'', PStr (py ''ana@example.eu'')),
    (''password'', PStr (py ''12345678'')), (''user_type'', PStr (py ''b2c''))]"
  have s: "?short ''password'' = Some (PStr (py ''1234567''))" "length (py ''1234567'') < 8"
    by simp_all
  have k: "?ok ''password'' = Some (PStr (py ''12345678''))" "8 \<le> length (py ''12345678'')"
    "\<not> list_ex surrogate (py ''12345678'')"
    by simp_all
  from password_min_length[where inp = ?short and s = "py ''1234567''" and utcnow = noon] s
  have 1: "rejects UserCreate noon ?short" by blast
  from password_min_length[where inp = ?ok and s = "py ''12345678''" and utcnow = noon] k
  have 2: "validate_field noon ?ok (''password'', T_str, Field\<lparr>min_length := Some 8\<rparr>)
      = Inr (''password'', PStr (py ''12345678''))" by blast
  from 1 2 show ?thesis by blast
qed

section \<open>Enumeration fields\<close>

lemma enum_field_required:
  assumes "inp n = Some v"
  shows "v \<notin> PStr ` set (enum_values e) \<Longrightarrow> \<exists>es. validate_field utcnow inp (n, T_Enum e, c) = Inl es"
    and "v \<in> PStr ` set (enum_values e) \<Longrightarrow> validate_field utcnow inp (n, T_Enum e, c) = Inr (n, v)"
  using assms by (auto split: pyval.splits)

lemma enum_field_optional:
  assumes "inp n = Some v"
  shows "v \<notin> PStr ` set (enum_values e) \<Longrightarrow> v \<noteq> PNone \<Longrightarrow>
      \<exists>es. validate_field utcnow inp (n, T_Optional (T_Enum e), c) = Inl es"
    and "v \<in> PStr ` set (enum_values e) \<or> v = PNone \<Longrightarrow>
      validate_field utcnow inp (n, T_Optional (T_Enum e), c) = Inr (n, v)"
  using assms by (auto split: pyval.splits)

text \<open>
  C2, as stated, fails: \<^verbatim>\<open>User.account_type\<close> is \<^verbatim>\<open>Optional[AccountType]\<close> with default
  \<^verbatim>\<open>None\<close>, and a payload whose \<^verbatim>\<open>account_type\<close> is \<^verbatim>\<open>None\<close>, which is no member
  of \<^verbatim>\<open>AccountType\<close>, is accepted.
\<close>

theorem optional_enum_none_counterexample:
  "(''account_type'', T_Optional (T_Enum AccountType), Opt_None) \<in> set (model_fields User) \<and>
   PNone \<notin> PStr ` set (enum_values AccountType) \<and>
   validate User noon
     (map_of [(''email'', PStr (py ''ana@example.eu'')), (''password_hash'', PStr (py ''x'')),
        (''user_type'', PStr (py ''b2c'')), (''account_type'', PNone)])
   = Inr [(''id'', PNone), (''email'', PStr (py ''ana@example.eu'')),
        (''password_hash'', PStr (py ''x'')), (''user_type'', PStr (py ''b2c'')),
        (''account_type'', PNone), (''organization_id'', PNone),
        (''is_active'', PBool True), (''can_generate_api_keys'', PBool False),
        (''created_at'', PDatetime (Datetime 2025 1 1 12 0 0 0)),
        (''updated_at'', PDatetime (Datetime 2025 1 1 12 0 0 0))] \<and>
   \<not> rejects User noon
     (map_of [(''email'', PStr (py ''ana@example.eu'')), (''password_hash'', PStr (py ''x'')),
        (''user_type'', PStr (py ''b2c'')), (''account_type'', PNone)])"
  by (simp add: rejects_def eval_defs User_def UserType_def AccountType_def noon_def image_iff)

text \<open>
  C2, amended. A value supplied for a field annotated with an enumeration is
  rejected (the whole payload fails) when it is not the value of a member, and
  passes the field's check when it is. For a field annotated \<^verbatim>\<open>Optional\<close> of an
  enumeration the same holds, except that \<^verbatim>\<open>None\<close> passes as well. Every
  enumeration annotation of the file has one of these two forms, over one of the
  seven enumerations.
\<close>

theorem enum_fields_closed:
  "((n, T_Enum e, c) \<in> set (model_fields m) \<and> inp n = Some v \<longrightarrow>
      (v \<notin> PStr ` set (enum_values e) \<longrightarrow> rejects m utcnow inp) \<and>
      (v \<in> PStr ` set (enum_values e) \<longrightarrow>
         validate_field utcnow inp (n, T_Enum e, c) = Inr (n, v)))
   \<and>
   ((n, T_Optional (T_Enum e), c) \<in> set (model_fields m) \<and> inp n = Some v \<longrightarrow>
      (v \<notin> PStr ` set (enum_values e) \<and> v \<noteq> PNone \<longrightarrow> rejects m utcnow inp) \<and>
      (v \<in> PStr ` set (enum_values e) \<or> v = PNone \<longrightarrow>
         validate_field utcnow inp (n, T_Optional (T_Enum e), c) = Inr (n, v)))
   \<and>
   list_all (\<lambda>m. list_all (\<lambda>(n, T, c).
       (case T of T_Enum e \<Rightarrow> e \<in> set all_enums
        | T_Optional (T_Enum e) \<Rightarrow> e \<in> set all_enums
        | T_Optional T' \<Rightarrow> True
        | T_List (T_Enum e) \<Rightarrow> False
        | _ \<Rightarrow> True)) (model_fields m)) all_models"
proof (intro conjI impI)
  assume a: "(n, T_Enum e, c) \<in> set (model_fields m) \<and> inp n = Some v"
  {
    assume "v \<notin> PStr ` set (enum_values e)"
    with a obtain es where "validate_field utcnow inp (n, T_Enum e, c) = Inl es"
      using enum_field_required(1) by blast
    with a show "rejects m utcnow inp" using rejects_field by blast
  next
    assume "v \<in> PStr ` set (enum_values e)"
    with a show "validate_field utcnow inp (n, T_Enum e, c) = Inr (n, v)"
      using enum_field_required(2) by blast
  }
next
  assume a: "(n, T_Optional (T_Enum e), c) \<in> set (model_fields m) \<and> inp n = Some v"
  {
    assume "v \<notin> PStr ` set (enum_values e) \<and> v \<noteq> PNone"
    with a obtain es where "validate_field utcnow inp (n, T_Optional (T_Enum e), c) = Inl es"
      using enum_field_optional(1) by blast
    with a show "rejects m utcnow inp" using rejects_field by blast
  next
    assume "v \<in> PStr ` set (enum_values e) \<or> v = PNone"
    with a show "validate_field utcnow inp (n, T_Optional (T_Enum e), c) = Inr (n, v)"
      using enum_field_optional(2) by blast
  }
next
  show "list_all (\<lambda>m. list_all (\<lambda>(n, T, c).
       (case T of T_Enum e \<Rightarrow> e \<in> set all_enums
        | T_Optional (T_Enum e) \<Rightarrow> e \<in> set all_enums
        | T_Optional T' \<Rightarrow> True
        | T_List (T_Enum e) \<Rightarrow> False
        | _ \<Rightarrow> True)) (model_fields m)) all_models"
    by (simp add: all_models_def all_enums_def model_defs)
qed

theorem enum_fields_closed_witness:
  "rejects UserCreate noon
     (map_of [(''email'', PStr (py ''ana@example.eu'')), (''password'', PStr (py ''12345678'')),
        (''user_type'', PStr (py ''admin''))]) \<and>
   validate_field noon
     (map_of [(''filename'', PStr (py ''a.pdf'')), (''language'', PNone)])
     (''language'', T_Optional (T_Enum Language), Opt_None) = Inr (''language'', PNone) \<and>
   rejects DocumentUpload noon
     (map_of [(''filename'', PStr (py ''a.pdf'')), (''language'', PStr (py ''xx''))])"
proof -
  let ?u = "map_of [(''email'', PStr (py ''ana@example.eu'')),
    (''password'', PStr (py ''12345678'')), (''user_type'', PStr (py ''admin''))]"
  let ?d = "map_of [(''filename'', PStr (py ''a.pdf'')), (''language'', PNone)]"
  let ?x = "map_of [(''filename'', PStr (py ''a.pdf'')), (''language'', PStr (py ''xx''))]"
  have u: "(''user_type'', T_Enum UserType, Field) \<in> set (model_fields UserCreate)"
    "?u ''user_type'' = Some (PStr (py ''admin''))"
    "PStr (py ''admin'') \<notin> PStr ` set (enum_values UserType)"
    by (simp_all add: UserCreate_def enum_values_def UserType_def image_iff)
  have d: "(''language'', T_Optional (T_Enum Language), Opt_None)
      \<in> set (model_fields DocumentUpload)"
    "?d ''language'' = Some PNone"
    by (simp_all add: DocumentUpload_def)
  have x: "?x ''language'' = Some (PStr (py ''xx''))"
    "PStr (py ''xx'') \<notin> PStr ` set (enum_values Language)" "PStr (py ''xx'') \<noteq> PNone"
    by (simp_all add: enum_values_def Language_def image_iff)
  from enum_fields_closed[of "''user_type''" UserType Field UserCreate ?u
      "PStr (py ''admin'')" noon] u
  have 1: "rejects UserCreate noon ?u" by blast
  from enum_fields_closed[of "''language''" Language Opt_None DocumentUpload ?d PNone noon] d
  have 2: "validate_field noon ?d (''language'', T_Optional (T_Enum Language), Opt_None)
      = Inr (''language'', PNone)" by blast
  from enum_fields_closed[of "''language''" Language Opt_None DocumentUpload ?x
      "PStr (py ''xx'')" noon] d(1) x
  have 3: "rejects DocumentUpload noon ?x" by blast
  from 1 2 3 show ?thesis by blast
qed

section \<open>UserContextUpdate\<close>

lemma optional_str_field:
  assumes "default c = Default PNone" and "default_factory c = None"
    and "min_length c = None" and "max_length c = Some k"
    and "\<forall>v. inp n = Some v \<longrightarrow>
      v = PNone \<or> (\<exists>s. v = PStr s \<and> length s \<le> k \<and> \<not> list_ex surrogate s)"
  shows "validate_field utcnow inp (n, T_Optional T_str, c)
    = Inr (n, case inp n of None \<Rightarrow> PNone | Some v \<Rightarrow> v)"
  using assms by (cases "inp n") (auto simp: get_default_def str_error_def)

lemma optional_enum_field:
  assumes "default c = Default PNone" and "default_factory c = None"
    and "\<forall>v. inp n = Some v \<longrightarrow> v = PNone \<or> (\<exists>s. v = PStr s \<and> s \<in> set (enum_values e))"
  shows "validate_field utcnow inp (n, T_Optional (T_Enum e), c)
    = Inr (n, case inp n of None \<Rightarrow> PNone | Some v \<Rightarrow> v)"
  using assms by (cases "inp n") (auto simp: get_default_def)

lemma optional_dict_field:
  assumes "default c = Default PNone" and "default_factory c = None"
    and "\<forall>v. inp n = Some v \<longrightarrow> v = PNone \<or> (\<exists>kvs. v = PDict kvs)"
  shows "validate_field utcnow inp (n, T_Optional T_Dict_str_Any, c)
    = Inr (n, case inp n of None \<Rightarrow> PNone | Some v \<Rightarrow> v)"
  using assms by (cases "inp n") (auto simp: get_default_def)

text \<open>
  C7, as stated, fails: the payload that supplies only \<^verbatim>\<open>home_location\<close>, as the
  one-character string U+D800, keeps within \<^verbatim>\<open>max_length=100\<close>, the field's one
  declared constraint, and is rejected with \<^verbatim>\<open>string_unicode\<close>.
\<close>

theorem user_context_update_counterexample:
  "length [55296::nat] \<le> 100 \<and>
   validate UserContextUpdate noon (map_of [(''home_location'', PStr [55296])])
   = Inl [(''home_location'', [], String_unicode)]"
  by (simp add: eval_defs surrogate_def UserContextUpdate_def)

text \<open>
  C7, amended. Every field of \<^verbatim>\<open>UserContextUpdate\<close> is optional with default \<^verbatim>\<open>None\<close>: a
  payload that supplies any part of the six fields, each supplied value being
  \<^verbatim>\<open>None\<close> or within the field's constraints (a string within \<^verbatim>\<open>max_length\<close> that
  holds no surrogate code point, the value of a \<^verbatim>\<open>Language\<close> member, a dictionary),
  is accepted; the instance holds the supplied values and \<^verbatim>\<open>None\<close> for every field
  left out.
\<close>

theorem user_context_update_all_optional:
  assumes "\<forall>v. inp ''user_type_context'' = Some v \<longrightarrow>
      v = PNone \<or> (\<exists>s. v = PStr s \<and> length s \<le> 50 \<and> \<not> list_ex surrogate s)"
    and "\<forall>v. inp ''home_location'' = Some v \<longrightarrow>
      v = PNone \<or> (\<exists>s. v = PStr s \<and> length s \<le> 100 \<and> \<not> list_ex surrogate s)"
    and "\<forall>v. inp ''preferred_language'' = Some v \<longrightarrow>
      v = PNone \<or> (\<exists>s. v = PStr s \<and> s \<in> set (enum_values Language))"
    and "\<forall>v. inp ''profession'' = Some v \<longrightarrow>
      v = PNone \<or> (\<exists>s. v = PStr s \<and> length s \<le> 100 \<and> \<not> list_ex surrogate s)"
    and "\<forall>v. inp ''personal_notes'' = Some v \<longrightarrow>
      v = PNone \<or> (\<exists>s. v = PStr s \<and> length s \<le> 2000 \<and> \<not> list_ex surrogate s)"
    and "\<forall>v. inp ''context_data'' = Some v \<longrightarrow> v = PNone \<or> (\<exists>kvs. v = PDict kvs)"
  shows "validate UserContextUpdate utcnow inp =
    Inr (map (\<lambda>n. (n, case inp n of None \<Rightarrow> PNone | Some v \<Rightarrow> v))
      [''user_type_context'', ''home_location'', ''preferred_language'', ''profession'',
       ''personal_notes'', ''context_data''])"
proof -
  have f1: "validate_field utcnow inp (''user_type_context'', T_Optional T_str,
      Field\<lparr>default := Default PNone, max_length := Some 50\<rparr>)
      = Inr (''user_type_context'',
          case inp ''user_type_context'' of None \<Rightarrow> PNone | Some v \<Rightarrow> v)"
    using assms(1) by (intro optional_str_field) (simp_all add: Field_def)
  have f2: "validate_field utcnow inp (''home_location'', T_Optional T_str,
      Field\<lparr>default := Default PNone, max_length := Some 100\<rparr>)
      = Inr (''home_location'', case inp ''home_location'' of None \<Rightarrow> PNone | Some v \<Rightarrow> v)"
    using assms(2) by (intro optional_str_field) (simp_all add: Field_def)
  have f3: "validate_field utcnow inp (''preferred_language'', T_Optional (T_Enum Language),
      Opt_None)
      = Inr (''preferred_language'',
          case inp ''preferred_language'' of None \<Rightarrow> PNone | Some v \<Rightarrow> v)"
    using assms(3) by (intro optional_enum_field) (simp_all add: Field_def)
  have f4: "validate_field utcnow inp (''profession'', T_Optional T_str,
      Field\<lparr>default := Default PNone, max_length := Some 100\<rparr>)
      = Inr (''profession'', case inp ''profession'' of None \<Rightarrow> PNone | Some v \<Rightarrow> v)"
    using assms(4) by (intro optional_str_field) (simp_all add: Field_def)
  have f5: "validate_field utcnow inp (''personal_notes'', T_Optional T_str,
      Field\<lparr>default := Default PNone, max_length := Some 2000\<rparr>)
      = Inr (''personal_notes'', case inp ''personal_notes'' of None \<Rightarrow> PNone | Some v \<Rightarrow> v)"
    using assms(5) by (intro optional_str_field) (simp_all add: Field_def)
  have f6: "validate_field utcnow inp (''context_data'', T_Optional T_Dict_str_Any, Opt_None)
      = Inr (''context_data'', case inp ''context_data'' of None \<Rightarrow> PNone | Some v \<Rightarrow> v)"
    using assms(6) by (intro optional_dict_field) (simp_all add: Field_def)
  show ?thesis
    unfolding validate_def UserContextUpdate_def
    by (simp add: f1 f2 f3 f4 f5 f6 del: validate_field.simps)
qed

theorem user_context_update_all_optional_witness:
  "validate UserContextUpdate noon
     (map_of [(''home_location'', PStr (py ''Sofia'')), (''preferred_language'', PStr (py ''bg''))])
   = Inr [(''user_type_context'', PNone), (''home_location'', PStr (py ''Sofia'')),
       (''preferred_language'', PStr (py ''bg'')), (''profession'', PNone),
       (''personal_notes'', PNone), (''context_data'', PNone)]"
  using user_context_update_all_optional[of
      "map_of [(''home_location'', PStr (py ''Sofia'')), (''preferred_language'', PStr (py ''bg''))]"
      noon]
  by (simp add: enum_values_def Language_def)

section \<open>Keys and unique columns\<close>

lemma UserContext_columns:
  "unique_columns UserContext = [''user_id'']"
  "''user_id'' \<in> set (not_null_columns UserContext)"
  by (simp_all add: unique_columns_def not_null_columns_def UserContext_def Field_def)

lemma UserContext_user_id_field:
  "(''user_id'', T_int, Field\<lparr>foreign_key := Some ''users.id'', unique := True\<rparr>)
     \<in> set (model_fields UserContext)"
  by (simp add: UserContext_def)

text \<open>
  C5. \<^verbatim>\<open>UserContext.user_id\<close> is required (a payload without it, or with \<^verbatim>\<open>None\<close>,
  is rejected) and is the one UNIQUE column of the table; \<^verbatim>\<open>User.user_context\<close> is a
  scalar relationship (\<^verbatim>\<open>uselist=False\<close>). In every state of the table each row has
  a \<^verbatim>\<open>user_id\<close>, two different rows have different \<^verbatim>\<open>user_id\<close>s, and so at most
  one row belongs to a given user.
\<close>

theorem user_context_one_to_one:
  "(inp ''user_id'' = None \<or> inp ''user_id'' = Some PNone \<longrightarrow>
      rejects UserContext utcnow inp) \<and>
   unique_columns UserContext = [''user_id''] \<and>
   map_of (relationships User) ''user_context''
     = Some (R_Optional ''UserContext'',
         Relationship\<lparr>back_populates := Some ''user'', uselist := Some False\<rparr>) \<and>
   (table_state UserContext rows \<longrightarrow>
      (\<forall>r \<in> set rows. column ''user_id'' r \<noteq> PNone) \<and>
      (\<forall>i j. i < length rows \<and> j < length rows \<and> i \<noteq> j \<longrightarrow>
         column ''user_id'' (rows ! i) \<noteq> column ''user_id'' (rows ! j)) \<and>
      (\<forall>u. length (filter (\<lambda>r. column ''user_id'' r = u) rows) \<le> 1))"
proof (intro conjI impI ballI allI)
  let ?f = "(''user_id'', T_int, Field\<lparr>foreign_key := Some ''users.id'', unique := True\<rparr>)"
  assume "inp ''user_id'' = None \<or> inp ''user_id'' = Some PNone"
  then have "\<exists>es. validate_field utcnow inp ?f = Inl es"
    by (auto simp: get_default_def Field_def)
  then show "rejects UserContext utcnow inp"
    using UserContext_user_id_field rejects_field by blast
next
  show "unique_columns UserContext = [''user_id'']" by (rule UserContext_columns)
next
  show "map_of (relationships User) ''user_context''
     = Some (R_Optional ''UserContext'',
         Relationship\<lparr>back_populates := Some ''user'', uselist := Some False\<rparr>)"
    by (simp add: User_def)
next
  fix r assume "table_state UserContext rows" "r \<in> set rows"
  then show "column ''user_id'' r \<noteq> PNone"
    using UserContext_columns(2) by (intro not_null_invariant)
next
  fix i j
  assume t: "table_state UserContext rows"
    and ij: "i < length rows \<and> j < length rows \<and> i \<noteq> j"
  have "distinct (map (column ''user_id'') rows)"
    using t UserContext_columns by (intro unique_column_invariant) simp_all
  with ij show "column ''user_id'' (rows ! i) \<noteq> column ''user_id'' (rows ! j)"
    using distinct_map_nth_neq by blast
next
  fix u
  assume t: "table_state UserContext rows"
  have "distinct (map (column ''user_id'') rows)"
    using t UserContext_columns by (intro unique_column_invariant) simp_all
  then show "length (filter (\<lambda>r. column ''user_id'' r = u) rows) \<le> 1"
    by (rule distinct_map_filter_le_1)
qed

theorem user_context_one_to_one_witness:
  "table_state UserContext [user_context_row (Some 1) 10, user_context_row (Some 2) 20] \<and>
   length (filter (\<lambda>r. column ''user_id'' r = PInt 10)
     [user_context_row (Some 1) 10, user_context_row (Some 2) 20]) \<le> 1 \<and>
   insert_row UserContext 3 [user_context_row (Some 1) 10, user_context_row (Some 2) 20]
     (user_context_row None 10) = Inl IntegrityError \<and>
   rejects UserContext noon (map_of [(''user_id'', PNone)])"
proof -
  let ?a = "user_context_row (Some 1) 10" and ?b = "user_context_row (Some 2) 20"
  have 1: "insert_row UserContext 1 [] (user_context_row None 10) = Inr [?a]"
    by (simp add: table_defs user_context_row_def UserContext_def Field_def)
  have 2: "insert_row UserContext 2 [?a] (user_context_row None 20) = Inr [?a, ?b]"
    by (simp add: table_defs user_context_row_def UserContext_def Field_def)
  have t: "table_state UserContext [?a, ?b]"
    by (rule table_state.inserted[OF table_state.inserted[OF table_state.empty 1] 2])
  have 3: "insert_row UserContext 3 [?a, ?b] (user_context_row None 10) = Inl IntegrityError"
    by (simp add: table_defs user_context_row_def UserContext_def Field_def)
  have n: "map_of [(''user_id'', PNone)] ''user_id'' = Some PNone" by simp
  note inst = user_context_one_to_one[of "map_of [(''user_id'', PNone)]" noon "[?a, ?b]"]
  from inst t have "length (filter (\<lambda>r. column ''user_id'' r = PInt 10) [?a, ?b]) \<le> 1"
    by blast
  moreover from inst n have "rejects UserContext noon (map_of [(''user_id'', PNone)])"
    by blast
  ultimately show ?thesis using t 3 by blast
qed

lemma ChatSessionDocument_key:
  "primary_key_columns ChatSessionDocument = [''chat_session_id'', ''document_id'']"
  by (simp add: primary_key_columns_def ChatSessionDocument_def Field_def)

text \<open>
  C6. The primary key of \<^verbatim>\<open>ChatSessionDocument\<close> is the pair
  (\<^verbatim>\<open>chat_session_id\<close>, \<^verbatim>\<open>document_id\<close>): in every state of the table two different
  rows differ in that pair, so at most one link row exists for a chat session and
  a document.
\<close>

theorem chat_session_document_composite_key:
  "primary_key_columns ChatSessionDocument = [''chat_session_id'', ''document_id''] \<and>
   (table_state ChatSessionDocument rows \<longrightarrow>
      (\<forall>i j. i < length rows \<and> j < length rows \<and> i \<noteq> j \<longrightarrow>
         (column ''chat_session_id'' (rows ! i), column ''document_id'' (rows ! i))
           \<noteq> (column ''chat_session_id'' (rows ! j), column ''document_id'' (rows ! j))) \<and>
      (\<forall>s d. length (filter (\<lambda>r. column ''chat_session_id'' r = s \<and>
         column ''document_id'' r = d) rows) \<le> 1))"
proof (intro conjI impI allI)
  show "primary_key_columns ChatSessionDocument = [''chat_session_id'', ''document_id'']"
    by (rule ChatSessionDocument_key)
next
  fix i j
  assume t: "table_state ChatSessionDocument rows"
    and ij: "i < length rows \<and> j < length rows \<and> i \<noteq> j"
  have "distinct (map (key [''chat_session_id'', ''document_id'']) rows)"
    using primary_key_invariant[OF t] by (simp add: ChatSessionDocument_key)
  with ij have "key [''chat_session_id'', ''document_id''] (rows ! i)
      \<noteq> key [''chat_session_id'', ''document_id''] (rows ! j)"
    using distinct_map_nth_neq by blast
  then show "(column ''chat_session_id'' (rows ! i), column ''document_id'' (rows ! i))
      \<noteq> (column ''chat_session_id'' (rows ! j), column ''document_id'' (rows ! j))"
    by (simp add: key_def)
next
  fix s d
  assume t: "table_state ChatSessionDocument rows"
  have "distinct (map (key [''chat_session_id'', ''document_id'']) rows)"
    using primary_key_invariant[OF t] by (simp add: ChatSessionDocument_key)
  then have "length (filter (\<lambda>r. key [''chat_session_id'', ''document_id''] r = [s, d]) rows) \<le> 1"
    by (rule distinct_map_filter_le_1)
  then show "length (filter (\<lambda>r. column ''chat_session_id'' r = s \<and>
         column ''document_id'' r = d) rows) \<le> 1"
    by (simp add: key_def)
qed

theorem chat_session_document_composite_key_witness:
  "table_state ChatSessionDocument [link_row 1 5, link_row 1 6, link_row 2 5] \<and>
   length (filter (\<lambda>r. column ''chat_session_id'' r = PInt 1 \<and> column ''document_id'' r = PInt 5)
     [link_row 1 5, link_row 1 6, link_row 2 5]) \<le> 1 \<and>
   insert_row ChatSessionDocument 0 [link_row 1 5, link_row 1 6, link_row 2 5] (link_row 1 6)
     = Inl IntegrityError"
proof -
  have 1: "insert_row ChatSessionDocument 0 [] (link_row 1 5) = Inr [link_row 1 5]"
    by (simp add: table_defs link_row_def ChatSessionDocument_def Field_def)
  have 2: "insert_row ChatSessionDocument 0 [link_row 1 5] (link_row 1 6)
      = Inr [link_row 1 5, link_row 1 6]"
    by (simp add: table_defs link_row_def ChatSessionDocument_def Field_def)
  have 3: "insert_row ChatSessionDocument 0 [link_row 1 5, link_row 1 6] (link_row 2 5)
      = Inr [link_row 1 5, link_row 1 6, link_row 2 5]"
    by (simp add: table_defs link_row_def ChatSessionDocument_def Field_def)
  have t: "table_state ChatSessionDocument [link_row 1 5, link_row 1 6, link_row 2 5]"
    by (rule table_state.inserted[OF table_state.inserted[OF
          table_state.inserted[OF table_state.empty 1] 2] 3])
  have 4: "insert_row ChatSessionDocument 0 [link_row 1 5, link_row 1 6, link_row 2 5]
      (link_row 1 6) = Inl IntegrityError"
    by (simp add: table_defs link_row_def ChatSessionDocument_def Field_def)
  from chat_session_document_composite_key[of "[link_row 1 5, link_row 1 6, link_row 2 5]"] t
  have "length (filter (\<lambda>r. column ''chat_session_id'' r = PInt 1 \<and>
      column ''document_id'' r = PInt 5) [link_row 1 5, link_row 1 6, link_row 2 5]) \<le> 1"
    by blast
  with t 4 show ?thesis by blast
qed

lemma User_columns:
  "unique_columns User = [''email'']"
  "''email'' \<in> set (not_null_columns User)"
  by (simp_all add: unique_columns_def not_null_columns_def User_def Field_def)

text \<open>
  C8. \<^verbatim>\<open>User.email\<close> is the one UNIQUE column of the users table: in every state
  of the table each row has an email and two different rows have different
  emails.
\<close>

theorem user_email_unique:
  "unique_columns User = [''email''] \<and>
   (table_state User rows \<longrightarrow>
      (\<forall>r \<in> set rows. column ''email'' r \<noteq> PNone) \<and>
      (\<forall>i j. i < length rows \<and> j < length rows \<and> i \<noteq> j \<longrightarrow>
         column ''email'' (rows ! i) \<noteq> column ''email'' (rows ! j)))"
proof (intro conjI impI ballI allI)
  show "unique_columns User = [''email'']" by (rule User_columns)
next
  fix r assume "table_state User rows" "r \<in> set rows"
  then show "column ''email'' r \<noteq> PNone"
    using User_columns(2) by (intro not_null_invariant)
next
  fix i j
  assume t: "table_state User rows" and ij: "i < length rows \<and> j < length rows \<and> i \<noteq> j"
  have "distinct (map (column ''email'') rows)"
    using t User_columns by (intro unique_column_invariant) simp_all
  with ij show "column ''email'' (rows ! i) \<noteq> column ''email'' (rows ! j)"
    using distinct_map_nth_neq by blast
qed

theorem user_email_unique_witness:
  "table_state User [user_row (Some 1) ''ana@example.eu'', user_row (Some 2) ''ben@example.eu''] \<and>
   column ''email'' (user_row (Some 1) ''ana@example.eu'')
     \<noteq> column ''email'' (user_row (Some 2) ''ben@example.eu'') \<and>
   insert_row User 3
     [user_row (Some 1) ''ana@example.eu'', user_row (Some 2) ''ben@example.eu'']
     (user_row None ''ana@example.eu'') = Inl IntegrityError"
proof -
  let ?a = "user_row (Some 1) ''ana@example.eu''" and ?b = "user_row (Some 2) ''ben@example.eu''"
  have 1: "insert_row User 1 [] (user_row None ''ana@example.eu'') = Inr [?a]"
    by (simp add: table_defs user_row_def User_def Field_def)
  have 2: "insert_row User 2 [?a] (user_row None ''ben@example.eu'') = Inr [?a, ?b]"
    by (simp add: table_defs user_row_def User_def Field_def)
  have t: "table_state User [?a, ?b]"
    by (rule table_state.inserted[OF table_state.inserted[OF table_state.empty 1] 2])
  have 3: "insert_row User 3 [?a, ?b] (user_row None ''ana@example.eu'') = Inl IntegrityError"
    by (simp add: table_defs user_row_def User_def Field_def)
  from user_email_unique[of "[?a, ?b]"] t
  have "\<forall>i j. i < length [?a, ?b] \<and> j < length [?a, ?b] \<and> i \<noteq> j \<longrightarrow>
      column ''email'' ([?a, ?b] ! i) \<noteq> column ''email'' ([?a, ?b] ! j)"
    by blast
  from this[rule_format, of 0 1] have "column ''email'' ?a \<noteq> column ''email'' ?b"
    by simp
  with t 3 show ?thesis by blast
qed

end
